theory Spec2Isabelle
  imports Complex_Main "HOL-Library.AList"
begin

section \<open>The language's built-ins used by src/index.ts\<close>

text \<open>
  A JavaScript string is modelled as a \<^typ>\<open>string\<close> whose characters are the code units
  U+0000 .. U+00FF (Latin-1). A thrown value is an \<open>error\<close> with the \<open>name\<close> and
  \<open>message\<close> properties the handlers read.
\<close>

datatype error = JsError (err_name: string) (err_message: string)

definition isWhiteSpace :: "char \<Rightarrow> bool" where
  \<comment> \<open>WhiteSpace and LineTerminator of ECMAScript below U+0100:
      TAB, LF, VT, FF, CR, SP, NBSP.\<close>
  "isWhiteSpace c = ((of_char c :: nat) \<in> {9, 10, 11, 12, 13, 32, 160})"

definition trim :: "string \<Rightarrow> string" where
  \<comment> \<open>String.prototype.trim\<close>
  "trim s = rev (dropWhile isWhiteSpace (rev (dropWhile isWhiteSpace s)))"

definition lower_char :: "char \<Rightarrow> char" where
  \<comment> \<open>the lower-case mapping of Unicode below U+0100: A-Z, and U+00C0 .. U+00DE but U+00D7\<close>
  "lower_char c =
     (let n = (of_char c :: nat)
      in if (65 \<le> n \<and> n \<le> 90) \<or> (192 \<le> n \<and> n \<le> 222 \<and> n \<noteq> 215)
         then char_of (n + 32) else c)"

definition toLowerCase :: "string \<Rightarrow> string" where
  \<comment> \<open>String.prototype.toLowerCase\<close>
  "toLowerCase s = map lower_char s"

definition ascii_lower :: "char \<Rightarrow> char" where
  \<comment> \<open>the canonicalisation of a case-insensitive, non-unicode regular expression, read on
      the pattern's side: only A-Z and a-z are identified\<close>
  "ascii_lower c =
     (let n = (of_char c :: nat) in if 65 \<le> n \<and> n \<le> 90 then char_of (n + 32) else c)"

primrec starts_with :: "string \<Rightarrow> string \<Rightarrow> bool" where
  "starts_with [] s = True"
| "starts_with (p # ps) s = (case s of [] \<Rightarrow> False | c # cs \<Rightarrow> p = c \<and> starts_with ps cs)"

primrec contains_str :: "string \<Rightarrow> string \<Rightarrow> bool" where
  \<comment> \<open>\<open>contains_str pat s\<close>: \<open>pat\<close> occurs in \<open>s\<close>\<close>
  "contains_str pat [] = (pat = [])"
| "contains_str pat (c # cs) = (starts_with pat (c # cs) \<or> contains_str pat cs)"

definition isDigit :: "char \<Rightarrow> bool" where
  \<comment> \<open>the class \<open>\d\<close>: 0-9\<close>
  "isDigit c = (48 \<le> (of_char c :: nat) \<and> (of_char c :: nat) \<le> 57)"

function dec :: "int \<Rightarrow> string" where
  \<comment> \<open>the decimal digits of an integer that is not negative\<close>
  "dec n = (if n < 10 then [char_of (48 + n)] else dec (n div 10) @ [char_of (48 + n mod 10)])"
  by pat_completeness auto
termination
  by (relation "measure nat") (auto simp add: int_div_less_self)

definition pad :: "nat \<Rightarrow> string \<Rightarrow> string" where
  "pad n s = replicate (n - length s) (CHR ''0'') @ s"

definition join :: "string \<Rightarrow> string list \<Rightarrow> string" where
  \<comment> \<open>Array.prototype.join\<close>
  "join sep xs = (case xs of [] \<Rightarrow> [] | y # ys \<Rightarrow> foldl (\<lambda>a b. a @ sep @ b) y ys)"

subsection \<open>Numbers\<close>

text \<open>
  A JavaScript number is an IEEE 754 binary64 value: NaN, an infinity (\<open>Infinity True\<close> is
  the negative one), or a finite double, given by the rational it denotes (the two zeros are
  not told apart: the program never divides by one). \<open>fl\<close> rounds a rational to the
  nearest double, ties to even, as the conversions and the arithmetic of the language do.
\<close>

datatype number = NaN | Infinity bool | Finite rat

definition power_of :: "int \<Rightarrow> int \<Rightarrow> rat" where
  \<comment> \<open>\<open>b\<close> to the power \<open>i\<close>, for an exponent of either sign\<close>
  "power_of b i = (if 0 \<le> i then of_int b ^ nat i else 1 / of_int b ^ nat (- i))"

function len :: "int \<Rightarrow> int \<Rightarrow> int" where
  \<comment> \<open>the number of digits of \<open>n\<close> in base \<open>b\<close>\<close>
  "len b n = (if b < 2 \<or> n \<le> 0 then 0 else 1 + len b (n div b))"
  by pat_completeness auto
termination
  by (relation "measure (\<lambda>(b, n). nat n)") (auto simp add: int_div_less_self)

definition ilog :: "int \<Rightarrow> rat \<Rightarrow> int" where
  \<comment> \<open>the integer \<open>e\<close> with \<open>b ^ e \<le> a < b ^ (e + 1)\<close>, for a positive \<open>a\<close>\<close>
  "ilog b a =
     (let (p, q) = quotient_of a;
          e = len b p - len b q
      in if (if 0 \<le> e then b ^ nat e * q \<le> p else q \<le> p * b ^ nat (- e)) then e else e - 1)"

definition round_half_even :: "int \<Rightarrow> int \<Rightarrow> int" where
  \<comment> \<open>the integer nearest to \<open>n / d\<close>, the even one of two, for a positive \<open>d\<close>\<close>
  "round_half_even n d =
     (let f = n div d; r = 2 * (n mod d)
      in if r < d then f else if d < r then f + 1 else if even f then f else f + 1)"

definition fl :: "rat \<Rightarrow> number" where
  \<comment> \<open>a double is \<open>m * 2 ^ (e - 52)\<close> with \<open>m < 2 ^ 53\<close> and \<open>e\<close> from -1022 (there \<open>m\<close>
      may be below \<open>2 ^ 52\<close>: the subnormal doubles) to 1023\<close>
  "fl q =
     (if q = 0 then Finite 0
      else
        let (p, d) = quotient_of \<bar>q\<bar>;
            e = max (ilog 2 \<bar>q\<bar>) (- 1022);
            m = (if e \<le> 52 then round_half_even (p * 2 ^ nat (52 - e)) d
                 else round_half_even p (d * 2 ^ nat (e - 52)))
        in if 1024 \<le> e \<or> (e = 1023 \<and> m = 9007199254740992) then Infinity (q < 0)
           else Finite ((if q < 0 then - of_int m else of_int m) * power_of 2 (e - 52)))"

definition mul :: "number \<Rightarrow> number \<Rightarrow> number" where
  \<comment> \<open>\<open>x * y\<close>\<close>
  "mul x y =
     (case (x, y) of
        (Finite a, Finite b) \<Rightarrow> fl (a * b)
      | (Finite a, Infinity n) \<Rightarrow> if a = 0 then NaN else Infinity (n \<noteq> (a < 0))
      | (Infinity n, Finite b) \<Rightarrow> if b = 0 then NaN else Infinity (n \<noteq> (b < 0))
      | (Infinity n, Infinity m) \<Rightarrow> Infinity (n \<noteq> m)
      | _ \<Rightarrow> NaN)"

definition sub :: "number \<Rightarrow> number \<Rightarrow> number" where
  \<comment> \<open>\<open>x - y\<close>\<close>
  "sub x y =
     (case (x, y) of
        (Finite a, Finite b) \<Rightarrow> fl (a - b)
      | (Finite a, Infinity n) \<Rightarrow> Infinity (\<not> n)
      | (Infinity n, Finite b) \<Rightarrow> Infinity n
      | (Infinity n, Infinity m) \<Rightarrow> if n = m then NaN else Infinity n
      | _ \<Rightarrow> NaN)"

definition isFinite :: "number \<Rightarrow> bool" where
  \<comment> \<open>Number.isFinite\<close>
  "isFinite x = (case x of Finite q \<Rightarrow> True | _ \<Rightarrow> False)"

definition digit_of :: "char \<Rightarrow> int option" where
  \<comment> \<open>the value of a digit 0-9, a-f or A-F\<close>
  "digit_of c =
     (let n = (of_char c :: int)
      in if 48 \<le> n \<and> n \<le> 57 then Some (n - 48)
         else if 97 \<le> n \<and> n \<le> 102 then Some (n - 87)
         else if 65 \<le> n \<and> n \<le> 70 then Some (n - 55)
         else None)"

definition digits_value :: "int \<Rightarrow> string \<Rightarrow> int option" where
  \<comment> \<open>the value of one digit or more of the base \<open>b\<close>\<close>
  "digits_value b s =
     (if s \<noteq> [] \<and> list_all (\<lambda>c. case digit_of c of None \<Rightarrow> False | Some d \<Rightarrow> d < b) s
      then Some (foldl (\<lambda>a c. b * a + the (digit_of c)) 0 s) else None)"

definition exponent_part :: "string \<Rightarrow> int option" where
  \<comment> \<open>ExponentPart, or nothing: \<open>e\<close> or \<open>E\<close>, a sign or none, decimal digits\<close>
  "exponent_part s =
     (case s of
        [] \<Rightarrow> Some 0
      | c # r \<Rightarrow>
          if c = CHR ''e'' \<or> c = CHR ''E''
          then (case r of
                  [] \<Rightarrow> None
                | d # r' \<Rightarrow>
                    if d = CHR ''+'' then digits_value 10 r'
                    else if d = CHR ''-'' then map_option uminus (digits_value 10 r')
                    else digits_value 10 r)
          else None)"

definition unsigned_decimal :: "string \<Rightarrow> rat option" where
  \<comment> \<open>the mathematical value of a StrUnsignedDecimalLiteral but \<open>Infinity\<close>: digits with a
      fraction or none, or a fraction alone, and an exponent or none\<close>
  "unsigned_decimal s =
     (let ip = takeWhile isDigit s;
          r1 = dropWhile isDigit s;
          dot = (r1 \<noteq> [] \<and> hd r1 = CHR ''.'');
          fp = (if dot then takeWhile isDigit (tl r1) else []);
          r2 = (if dot then dropWhile isDigit (tl r1) else r1)
      in if ip = [] \<and> fp = [] then None
         else case exponent_part r2 of
                None \<Rightarrow> None
              | Some e \<Rightarrow>
                  Some (of_int (foldl (\<lambda>a c. 10 * a + (of_char c - 48)) 0 (ip @ fp))
                        * power_of 10 (e - int (length fp))))"

definition js_Number :: "string \<Rightarrow> number" where
  \<comment> \<open>\<open>Number(s)\<close> of a string: white space around is dropped; the empty string is 0; a
      literal with the prefix 0x, 0o or 0b (no sign) is read in its base; else a sign or
      none, and \<open>Infinity\<close> or a decimal literal; any other string is NaN\<close>
  "js_Number s =
     (let t = trim s
      in if t = [] then Finite 0
         else if starts_with ''0x'' t \<or> starts_with ''0X'' t
         then (case digits_value 16 (drop 2 t) of None \<Rightarrow> NaN | Some n \<Rightarrow> fl (of_int n))
         else if starts_with ''0o'' t \<or> starts_with ''0O'' t
         then (case digits_value 8 (drop 2 t) of None \<Rightarrow> NaN | Some n \<Rightarrow> fl (of_int n))
         else if starts_with ''0b'' t \<or> starts_with ''0B'' t
         then (case digits_value 2 (drop 2 t) of None \<Rightarrow> NaN | Some n \<Rightarrow> fl (of_int n))
         else
           let neg = (hd t = CHR ''-'');
               u = (if hd t = CHR ''+'' \<or> hd t = CHR ''-'' then tl t else t)
           in if u = ''Infinity'' then Infinity neg
              else case unsigned_decimal u of
                     None \<Rightarrow> NaN
                   | Some q \<Rightarrow> fl (if neg then - q else q))"

function strip_zeros :: "int \<Rightarrow> int" where
  "strip_zeros s = (if s \<le> 0 \<or> s mod 10 \<noteq> 0 then s else strip_zeros (s div 10))"
  by pat_completeness auto
termination
  by (relation "measure nat") (auto simp add: int_div_less_self)

fun shortest :: "rat \<Rightarrow> int \<Rightarrow> nat \<Rightarrow> nat \<Rightarrow> rat" where
  \<comment> \<open>the decimal of the fewest digits, \<open>k\<close> or more and 17 at most, that rounds to the
      double \<open>x\<close>, where \<open>10 ^ (n0 - 1) \<le> x < 10 ^ n0\<close>; of two, the nearer to \<open>x\<close>\<close>
  "shortest x n0 k 0 = x"
| "shortest x n0 k (Suc fuel) =
     (let sc = power_of 10 (n0 - int k);
          lo = of_int \<lfloor>x / sc\<rfloor> * sc;
          hi = lo + sc;
          oklo = (fl lo = Finite x);
          okhi = (fl hi = Finite x)
      in if oklo \<and> okhi
         then (if x - lo < hi - x then lo
               else if hi - x < x - lo then hi
               else if even \<lfloor>x / sc\<rfloor> then lo else hi)
         else if oklo then lo
         else if okhi then hi
         else shortest x n0 (Suc k) fuel)"

definition positive_string :: "rat \<Rightarrow> string" where
  \<comment> \<open>Number::toString of a positive double, radix 10: the digits \<open>ds\<close> of the shortest
      decimal, and the place \<open>n\<close> of its decimal point. An integer below \<open>2 ^ 53\<close> is its
      own shortest decimal.\<close>
  "positive_string x =
     (if x = of_int \<lfloor>x\<rfloor> \<and> x < 9007199254740992 then dec \<lfloor>x\<rfloor>
      else
        let v = shortest x (ilog 10 x + 1) 1 17;
            n = ilog 10 v + 1;
            ds = dec (strip_zeros \<lfloor>v * power_of 10 (17 - n)\<rfloor>);
            k = int (length ds)
        in if k \<le> n \<and> n \<le> 21 then ds @ replicate (nat (n - k)) (CHR ''0'')
           else if 0 < n \<and> n \<le> 21 then take (nat n) ds @ ''.'' @ drop (nat n) ds
           else if - 6 < n \<and> n \<le> 0 then ''0.'' @ replicate (nat (- n)) (CHR ''0'') @ ds
           else (if k = 1 then ds else [hd ds] @ ''.'' @ tl ds)
                @ ''e'' @ (if 0 \<le> n - 1 then ''+'' else ''-'') @ dec \<bar>n - 1\<bar>)"

definition js_String :: "number \<Rightarrow> string" where
  \<comment> \<open>\<open>String(x)\<close> of a number\<close>
  "js_String x =
     (case x of
        NaN \<Rightarrow> ''NaN''
      | Infinity n \<Rightarrow> (if n then ''-Infinity'' else ''Infinity'')
      | Finite q \<Rightarrow>
          if q = 0 then ''0''
          else if q < 0 then ''-'' @ positive_string (- q)
          else positive_string q)"

subsection \<open>Dates\<close>

text \<open>
  A time value is the number of milliseconds since 1970-01-01T00:00:00Z, or none for an
  invalid date. \<open>newDate\<close> is \<open>new Date(v)\<close> of a number: the time value is clipped to
  NaN beyond 8.64e15 ms from the epoch, and else truncated to an integer.
  \<open>civil_from_days\<close> is the proleptic Gregorian date of a day number; \<open>toISOString\<close> is
  \<open>Date.prototype.toISOString\<close>, which throws a RangeError on an invalid date.
\<close>

definition newDate :: "number \<Rightarrow> int option" where
  "newDate v =
     (case v of
        Finite q \<Rightarrow>
          if 8640000000000000 < \<bar>q\<bar> then None
          else Some (if q < 0 then - \<lfloor>- q\<rfloor> else \<lfloor>q\<rfloor>)
      | _ \<Rightarrow> None)"

definition civil_from_days :: "int \<Rightarrow> int \<times> int \<times> int" where
  "civil_from_days z0 =
     (let z = z0 + 719468;
          era = z div 146097;
          doe = z - era * 146097;
          yoe = (doe - doe div 1460 + doe div 36524 - doe div 146096) div 365;
          y = yoe + era * 400;
          doy = doe - (365 * yoe + yoe div 4 - yoe div 100);
          mp = (5 * doy + 2) div 153;
          d = doy - (153 * mp + 2) div 5 + 1;
          m = (if mp < 10 then mp + 3 else mp - 9)
      in (if m \<le> 2 then y + 1 else y, m, d))"

definition year_str :: "int \<Rightarrow> string" where
  \<comment> \<open>four digits for the years 0 .. 9999, else a sign and six digits\<close>
  "year_str y =
     (if 0 \<le> y \<and> y \<le> 9999 then pad 4 (dec y)
      else if y < 0 then ''-'' @ pad 6 (dec (- y))
      else ''+'' @ pad 6 (dec y))"

definition toISOString :: "int option \<Rightarrow> error + string" where
  "toISOString tv =
     (case tv of
        None \<Rightarrow> Inl (JsError ''RangeError'' ''Invalid time value'')
      | Some t \<Rightarrow>
          let days = t div 86400000;
              ms = t mod 86400000;
              (y, m, d) = civil_from_days days
          in Inr (year_str y @ ''-'' @ pad 2 (dec m) @ ''-'' @ pad 2 (dec d) @ ''T''
                  @ pad 2 (dec (ms div 3600000)) @ '':''
                  @ pad 2 (dec (ms div 60000 mod 60)) @ '':''
                  @ pad 2 (dec (ms div 1000 mod 60)) @ ''.''
                  @ pad 3 (dec (ms mod 1000)) @ ''Z''))"

definition iso_prefix :: "string \<Rightarrow> bool" where
  \<comment> \<open>the test of \<open>/^\d{4}-\d{2}-\d{2}T/\<close>\<close>
  "iso_prefix s =
     (case s of
        a # b # c # d # m1 # e # f # m2 # g # h # t # _ \<Rightarrow>
          isDigit a \<and> isDigit b \<and> isDigit c \<and> isDigit d \<and> m1 = CHR ''-'' \<and>
          isDigit e \<and> isDigit f \<and> m2 = CHR ''-'' \<and> isDigit g \<and> isDigit h \<and> t = CHR ''T''
      | _ \<Rightarrow> False)"

section \<open>The services the program talks to\<close>

text \<open>
  Everything outside the program is a field of the \<open>world\<close>: the process environment, the
  secrets manager, the clock, the platform's \<open>Intl.DateTimeFormat\<close> for the time zone
  Europe/Stockholm, its \<open>Date\<close> parser and its \<open>URL\<close> parser, the key-value storage, and
  the two HTTP services. A call that is awaited is answered by a \<open>promise\<close>: it is fulfilled
  with a value, or rejected with an error, which the \<open>await\<close> throws. Every call that leaves
  the process is recorded, in order, as an \<open>event\<close>, when it is made; the board system may
  answer a request differently after what has happened before, so its answer depends on the
  events so far.
\<close>

record GoCreateCustomerInfo =
  FirstName :: "string option"
  LastName :: "string option"
  MobileNumber :: "string option"
  Email :: "string option"
  CompanyName :: "string option"

record GoCreateByDateRangeResponse =
  CustomerInfo :: "GoCreateCustomerInfo list option"
  IsValidResult :: "bool option"
  ErrorCode :: "string option"
  ErrorMessage :: "string option"

datatype 'r promise = Rejected error | Fulfilled 'r

record gocreate_request =
  \<comment> \<open>POST to \<open>url\<close> with the other fields as its JSON body\<close>
  url :: string
  DateTime :: string
  EndDateTime :: string
  UserName :: string
  Password :: string
  AuthenticationToken :: string

record gocreate_http =
  gc_status :: nat
  gc_text :: "error + string"
    \<comment> \<open>\<open>await res.text()\<close>\<close>
  gc_json :: "error + GoCreateByDateRangeResponse"
    \<comment> \<open>\<open>await res.json()\<close>\<close>

record item =
  item_id :: string
  item_name :: string

datatype gql_query =
    Q_items_page_by_column_values nat
      \<comment> \<open>\<open>items_page_by_column_values(board_id: $board_id, columns: [{column_id: $column_id,
          column_values: [$column_value]}], limit: n) { items { id name } }\<close>\<close>
  | Q_create_item
      \<comment> \<open>\<open>create_item(board_id, group_id, item_name, column_values) { id }\<close>\<close>
  | Q_change_multiple_column_values
      \<comment> \<open>\<open>change_multiple_column_values(board_id, item_id, column_values) { id }\<close>\<close>

datatype gql_value =
    VString string
  | VJson "(string \<times> string) list"
      \<comment> \<open>\<open>JSON.stringify\<close> of an object with these properties\<close>

datatype gql_data =
    D_items_page_by_column_values "item list"
  | D_create_item string
  | D_change_multiple_column_values string

record monday_json =
  m_errors :: "string list"
    \<comment> \<open>the messages of \<open>json.errors\<close>, empty when there are none\<close>
  m_data :: "gql_data option"

record monday_http =
  m_status :: nat
  m_text :: "error + string"
    \<comment> \<open>\<open>await res.text()\<close>\<close>
  m_json :: "error + monday_json"
    \<comment> \<open>\<open>await res.json()\<close>\<close>

record storage_response =
  st_success :: bool
  st_value :: "string option"

datatype event =
    SecretsGet string
  | StorageGet string
  | StorageSet string string
  | GoCreatePost gocreate_request
  | MondayPost string gql_query "(string \<times> gql_value) list"
  | Sleep nat
  | LogInfo string

record world =
  env :: "string \<rightharpoonup> string"
    \<comment> \<open>\<open>process.env\<close>\<close>
  secrets :: "string \<Rightarrow> string option promise"
    \<comment> \<open>\<open>SecretsManager.get\<close>\<close>
  clock :: "nat \<Rightarrow> int"
    \<comment> \<open>the time value of the n-th reading of the clock in this run\<close>
  formatToParts :: "int \<Rightarrow> (string \<times> string) list"
    \<comment> \<open>\<open>Intl.DateTimeFormat("sv-SE", {timeZone: "Europe/Stockholm", year: "numeric",
        month, day, hour, minute: "2-digit", hour12: false}).formatToParts\<close>:
        the (type, value) pairs\<close>
  dateParse :: "string \<Rightarrow> int option"
    \<comment> \<open>the time value of \<open>new Date(s)\<close>, \<open>None\<close> for NaN\<close>
  newURL :: "string \<Rightarrow> string \<Rightarrow> string option"
    \<comment> \<open>\<open>new URL(path, base).toString()\<close>, \<open>None\<close> where the constructor throws\<close>
  storage_get :: "string \<Rightarrow> storage_response option promise"
    \<comment> \<open>\<open>Storage.get\<close>\<close>
  storage_set :: "string \<Rightarrow> string \<Rightarrow> unit promise"
    \<comment> \<open>\<open>Storage.set\<close>\<close>
  gocreate :: "gocreate_request \<Rightarrow> gocreate_http promise"
  monday :: "event list \<Rightarrow> string \<Rightarrow> gql_query \<Rightarrow> (string \<times> gql_value) list
             \<Rightarrow> monday_http promise"

section \<open>The program\<close>

definition TZ :: string where
  "TZ = ''Europe/Stockholm''"

definition orEmpty :: "string option \<Rightarrow> string" where
  \<comment> \<open>\<open>v ?? ""\<close>\<close>
  "orEmpty v = (case v of None \<Rightarrow> [] | Some s \<Rightarrow> s)"

definition falsy :: "string option \<Rightarrow> bool" where
  \<comment> \<open>\<open>!v\<close> of a string or undefined\<close>
  "falsy v = (v = None \<or> v = Some [])"

definition mustGetEnv :: "(string \<rightharpoonup> string) \<Rightarrow> string \<Rightarrow> error + string" where
  "mustGetEnv e name =
     (if falsy (e name) then Inl (JsError ''Error'' (''Missing env var: '' @ name))
      else Inr (orEmpty (e name)))"

definition getEnvBool :: "(string \<rightharpoonup> string) \<Rightarrow> string \<Rightarrow> bool \<Rightarrow> bool" where
  "getEnvBool e name fallback =
     (if falsy (e name) then fallback
      else toLowerCase (orEmpty (e name)) \<in> set [''1'', ''true'', ''yes'', ''y'', ''on''])"

definition getEnvInt :: "(string \<rightharpoonup> string) \<Rightarrow> string \<Rightarrow> number \<Rightarrow> number" where
  "getEnvInt e name fallback =
     (if falsy (e name) then fallback
      else let n = js_Number (orEmpty (e name)) in if isFinite n then n else fallback)"

definition isoNowUtc :: "world \<Rightarrow> nat \<Rightarrow> error + string" where
  \<comment> \<open>at the n-th reading of the clock\<close>
  "isoNowUtc w n = toISOString (newDate (Finite (of_int (clock w n))))"

definition isoDaysAgoUtc :: "world \<Rightarrow> nat \<Rightarrow> number \<Rightarrow> error + string" where
  \<comment> \<open>at the n-th reading of the clock\<close>
  "isoDaysAgoUtc w n days =
     toISOString
       (newDate (sub (Finite (of_int (clock w n)))
                     (mul (mul (mul (mul days (Finite 24)) (Finite 60)) (Finite 60))
                          (Finite 1000))))"

definition isValidIsoDate :: "world \<Rightarrow> string \<Rightarrow> bool" where
  "isValidIsoDate w s = (dateParse w s \<noteq> None \<and> iso_prefix s)"

record stockholm =
  yyyyMMdd :: string
  hour :: number
  minute :: number

definition stockholmParts :: "world \<Rightarrow> int \<Rightarrow> stockholm" where
  "stockholmParts w date =
     (let parts = foldl (\<lambda>acc p. if fst p \<noteq> ''literal'' then acc(fst p \<mapsto> snd p) else acc)
                    Map.empty (formatToParts w date);
          str = (\<lambda>k. case parts k of None \<Rightarrow> ''undefined'' | Some v \<Rightarrow> v);
          num = (\<lambda>k. case parts k of None \<Rightarrow> NaN | Some v \<Rightarrow> js_Number v)
      in \<lparr> yyyyMMdd = str ''year'' @ ''-'' @ str ''month'' @ ''-'' @ str ''day'',
           hour = num ''hour'', minute = num ''minute'' \<rparr>)"

definition auth_message :: "string \<Rightarrow> bool" where
  \<comment> \<open>\<open>/unauthorized|authentication|not authorized|invalid token/i.test(msg)\<close>\<close>
  "auth_message msg =
     (let m = map ascii_lower msg
      in contains_str ''unauthorized'' m \<or> contains_str ''authentication'' m \<or>
         contains_str ''not authorized'' m \<or> contains_str ''invalid token'' m)"

definition MondayAuthError :: "string \<Rightarrow> error" where
  "MondayAuthError msg = JsError ''MondayAuthError'' msg"

definition graphql_result :: "monday_json \<Rightarrow> error + gql_data" where
  \<comment> \<open>what \<open>mondayGraphql\<close> makes of the parsed body of a 2xx answer\<close>
  "graphql_result json =
     (if m_errors json \<noteq> []
      then (let msg = join '' | '' (m_errors json)
            in if auth_message msg
               then Inl (MondayAuthError (''monday auth failed (GraphQL): '' @ msg))
               else Inl (JsError ''Error'' (''monday GraphQL: '' @ msg)))
      else (case m_data json of
              None \<Rightarrow> Inl (JsError ''Error'' ''monday: missing data'')
            | Some d \<Rightarrow> Inr d))"

definition mondayGraphql ::
  "world \<Rightarrow> event list \<Rightarrow> string \<Rightarrow> gql_query \<Rightarrow> (string \<times> gql_value) list
   \<Rightarrow> event list \<times> (error + gql_data)" where
  "mondayGraphql w tr token query variables =
     (tr @ [MondayPost token query variables],
      (case monday w tr token query variables of
         Rejected e \<Rightarrow> Inl e
       | Fulfilled res \<Rightarrow>
           (if m_status res = 401 \<or> m_status res = 403
            then Inl (MondayAuthError
                   (''monday auth failed HTTP '' @ dec (int (m_status res)) @ '': ''
                    @ (case m_text res of Inl e \<Rightarrow> [] | Inr body \<Rightarrow> body)))
            else if \<not> (200 \<le> m_status res \<and> m_status res \<le> 299)
            then (case m_text res of
                    Inl e \<Rightarrow> Inl e
                  | Inr body \<Rightarrow>
                      Inl (JsError ''Error''
                        (''monday HTTP '' @ dec (int (m_status res)) @ '': '' @ body)))
            else (case m_json res of
                    Inl e \<Rightarrow> Inl e
                  | Inr json \<Rightarrow> graphql_result json))))"

definition mondayFindItemByColumnValue ::
  "world \<Rightarrow> event list \<Rightarrow> string \<Rightarrow> number \<Rightarrow> string \<Rightarrow> string
   \<Rightarrow> event list \<times> (error + item option)" where
  "mondayFindItemByColumnValue w tr token boardId columnId val =
     (case mondayGraphql w tr token (Q_items_page_by_column_values 1)
             [(''board_id'', VString (js_String boardId)),
              (''column_id'', VString columnId),
              (''column_value'', VString val)] of
        (tr', Inl e) \<Rightarrow> (tr', Inl e)
      | (tr', Inr (D_items_page_by_column_values items)) \<Rightarrow>
          (tr', Inr (case items of [] \<Rightarrow> None | i # _ \<Rightarrow> Some i))
      | (tr', Inr _) \<Rightarrow>
          (tr', Inl (JsError ''TypeError''
                  ''Cannot read properties of undefined (reading 'items')'')))"

definition mondayCreateItem ::
  "world \<Rightarrow> event list \<Rightarrow> string \<Rightarrow> number \<Rightarrow> string \<Rightarrow> string \<Rightarrow> (string \<times> string) list
   \<Rightarrow> event list \<times> (error + string)" where
  "mondayCreateItem w tr token boardId groupId itemName columnValues =
     (case mondayGraphql w tr token Q_create_item
             [(''board_id'', VString (js_String boardId)),
              (''group_id'', VString groupId),
              (''item_name'', VString itemName),
              (''column_values'', VJson columnValues)] of
        (tr', Inl e) \<Rightarrow> (tr', Inl e)
      | (tr', Inr (D_create_item i)) \<Rightarrow> (tr', Inr i)
      | (tr', Inr _) \<Rightarrow>
          (tr', Inl (JsError ''TypeError''
                  ''Cannot read properties of undefined (reading 'id')'')))"

definition mondayUpdateItemColumns ::
  "world \<Rightarrow> event list \<Rightarrow> string \<Rightarrow> number \<Rightarrow> string \<Rightarrow> (string \<times> string) list
   \<Rightarrow> event list \<times> (error + unit)" where
  "mondayUpdateItemColumns w tr token boardId itemId columnValues =
     (case mondayGraphql w tr token Q_change_multiple_column_values
             [(''board_id'', VString (js_String boardId)),
              (''item_id'', VString itemId),
              (''column_values'', VJson columnValues)] of
        (tr', Inl e) \<Rightarrow> (tr', Inl e)
      | (tr', Inr _) \<Rightarrow> (tr', Inr ()))"

record fetch_args =
  \<comment> \<open>the argument of \<open>goCreateFetchCustomersByDateRange\<close>\<close>
  baseUrl :: string
  startISO :: string
  endISO :: string
  userName :: string
  password :: string
  authToken :: string

definition goCreateFetchCustomersByDateRange ::
  "world \<Rightarrow> event list \<Rightarrow> fetch_args
   \<Rightarrow> event list \<times> (error + GoCreateCustomerInfo list)" where
  "goCreateFetchCustomersByDateRange w tr args =
     (case newURL w ''/Customer/ByDateRange/'' (baseUrl args) of
        None \<Rightarrow> (tr, Inl (JsError ''TypeError'' ''Invalid URL''))
      | Some u \<Rightarrow>
          (tr @ [GoCreatePost \<lparr> url = u, DateTime = startISO args, EndDateTime = endISO args,
                                UserName = userName args, Password = password args,
                                AuthenticationToken = authToken args \<rparr>],
           (case gocreate w \<lparr> url = u, DateTime = startISO args, EndDateTime = endISO args,
                              UserName = userName args, Password = password args,
                              AuthenticationToken = authToken args \<rparr> of
              Rejected e \<Rightarrow> Inl e
            | Fulfilled res \<Rightarrow>
                (if \<not> (200 \<le> gc_status res \<and> gc_status res \<le> 299)
                 then (case gc_text res of
                         Inl e \<Rightarrow> Inl e
                       | Inr body \<Rightarrow>
                           Inl (JsError ''Error''
                             (''GoCreate HTTP '' @ dec (int (gc_status res)) @ '': '' @ body)))
                 else (case gc_json res of
                         Inl e \<Rightarrow> Inl e
                       | Inr json \<Rightarrow>
                           (if IsValidResult json = Some False
                            then Inl (JsError ''Error''
                                   (trim (''GoCreate invalid result: ''
                                          @ trim (orEmpty (ErrorCode json)) @ '' ''
                                          @ trim (orEmpty (ErrorMessage json)))))
                            else Inr (case CustomerInfo json of
                                        None \<Rightarrow> [] | Some cs \<Rightarrow> cs)))))))"

record RuntimeSecrets =
  mondayAccessToken :: string
  gocreateBaseUrl :: string
  gocreateUsername :: string
  gocreatePassword :: string
  gocreateAuthToken :: string

definition secret :: "world \<Rightarrow> event list \<Rightarrow> string \<Rightarrow> event list \<times> (error + string option)"
  where
  \<comment> \<open>\<open>await secrets.get(name)\<close>\<close>
  "secret w tr name =
     (tr @ [SecretsGet name],
      (case secrets w name of Rejected e \<Rightarrow> Inl e | Fulfilled v \<Rightarrow> Inr v))"

definition getSecrets :: "world \<Rightarrow> event list \<Rightarrow> event list \<times> (error + RuntimeSecrets)" where
  "getSecrets w tr =
     (case secret w tr ''MONDAY_ACCESS_TOKEN'' of
        (tr1, Inl e) \<Rightarrow> (tr1, Inl e)
      | (tr1, Inr token) \<Rightarrow>
     (case secret w tr1 ''GOCREATE_USERNAME'' of
        (tr2, Inl e) \<Rightarrow> (tr2, Inl e)
      | (tr2, Inr username) \<Rightarrow>
     (case secret w tr2 ''GOCREATE_PASSWORD'' of
        (tr3, Inl e) \<Rightarrow> (tr3, Inl e)
      | (tr3, Inr pw) \<Rightarrow>
     (case secret w tr3 ''GOCREATE_AUTH_TOKEN'' of
        (tr4, Inl e) \<Rightarrow> (tr4, Inl e)
      | (tr4, Inr auth) \<Rightarrow>
     (case secret w tr4 ''GOCREATE_BASE_URL'' of
        (tr5, Inl e) \<Rightarrow> (tr5, Inl e)
      | (tr5, Inr base) \<Rightarrow>
          (if falsy token
           then (tr5, Inl (JsError ''Error'' ''Missing secret: MONDAY_ACCESS_TOKEN''))
           else if falsy username \<or> falsy pw \<or> falsy auth
           then (tr5, Inl (JsError ''Error''
    ''Missing GoCreate secrets: GOCREATE_USERNAME / GOCREATE_PASSWORD / GOCREATE_AUTH_TOKEN''))
           else (tr5, Inr \<lparr> mondayAccessToken = orEmpty token,
                            gocreateBaseUrl =
                              (case base of None \<Rightarrow> ''http://api.gocreate.nu'' | Some u \<Rightarrow> u),
                            gocreateUsername = orEmpty username,
                            gocreatePassword = orEmpty pw,
                            gocreateAuthToken = orEmpty auth \<rparr>)))))))"

subsection \<open>The loop over the fetched customers\<close>

record config =
  \<comment> \<open>the constants of \<open>runSync\<close> that its loop reads\<close>
  mondayToken :: string
  boardId :: number
  groupId :: string
  colEmail :: string
  colTelefon :: string
  colForetag :: string
  dryRun :: bool
  updateExisting :: bool

record counters =
  \<comment> \<open>the variables of \<open>runSync\<close> that its loop writes\<close>
  created :: nat
  updated :: nat
  skippedExisting :: nat
  skippedNoEmail :: nat
  errors :: "(string option \<times> string) list"

definition emailRaw :: "GoCreateCustomerInfo \<Rightarrow> string" where
  "emailRaw c = trim (orEmpty (Email c))"

definition email :: "GoCreateCustomerInfo \<Rightarrow> string" where
  "email c = toLowerCase (emailRaw c)"

definition itemName :: "GoCreateCustomerInfo \<Rightarrow> string" where
  "itemName c =
     (let firstName = trim (orEmpty (FirstName c));
          lastName = trim (orEmpty (LastName c));
          full = trim (firstName @ '' '' @ lastName)
      in if full = [] then email c else full)"

definition columnValues :: "config \<Rightarrow> GoCreateCustomerInfo \<Rightarrow> (string \<times> string) list" where
  \<comment> \<open>the object \<open>{[colTelefon]: mobile, [colEmail]: email, [colForetag]: company}\<close>,
      its properties in the order of their creation: a later property with the same key
      replaces the value of the earlier one (column ids are taken not to be array indices,
      which an object lists first)\<close>
  "columnValues cfg c =
     AList.update (colForetag cfg) (trim (orEmpty (CompanyName c)))
       (AList.update (colEmail cfg) (email c)
         (AList.update (colTelefon cfg) (trim (orEmpty (MobileNumber c))) []))"

definition upsert ::
  "world \<Rightarrow> config \<Rightarrow> GoCreateCustomerInfo \<Rightarrow> event list \<Rightarrow> counters \<Rightarrow> item option
   \<Rightarrow> event list \<times> (error + counters)" where
  \<comment> \<open>the branch on \<open>found\<close>\<close>
  "upsert w cfg c tr k found =
     (case found of
        None \<Rightarrow>
          (if \<not> dryRun cfg
           then (case mondayCreateItem w tr (mondayToken cfg) (boardId cfg) (groupId cfg)
                        (itemName c) (columnValues cfg c) of
                   (tr', Inl e) \<Rightarrow> (tr', Inl e)
                 | (tr', Inr _) \<Rightarrow> (tr', Inr (k\<lparr>created := created k + 1\<rparr>)))
           else (tr, Inr (k\<lparr>created := created k + 1\<rparr>)))
      | Some i \<Rightarrow>
          (if \<not> updateExisting cfg
           then (tr, Inr (k\<lparr>skippedExisting := skippedExisting k + 1\<rparr>))
           else if \<not> dryRun cfg
           then (case mondayUpdateItemColumns w tr (mondayToken cfg) (boardId cfg) (item_id i)
                        (columnValues cfg c) of
                   (tr', Inl e) \<Rightarrow> (tr', Inl e)
                 | (tr', Inr _) \<Rightarrow> (tr', Inr (k\<lparr>updated := updated k + 1\<rparr>)))
           else (tr, Inr (k\<lparr>updated := updated k + 1\<rparr>))))"

definition try_block ::
  "world \<Rightarrow> config \<Rightarrow> GoCreateCustomerInfo \<Rightarrow> event list \<Rightarrow> counters
   \<Rightarrow> event list \<times> (error + counters)" where
  \<comment> \<open>the \<open>try\<close> block of one iteration: \<open>Inl\<close> is what it throws\<close>
  "try_block w cfg c tr k =
     (if emailRaw c = []
      then (tr, Inr (k\<lparr>skippedNoEmail := skippedNoEmail k + 1\<rparr>))
      else (case mondayFindItemByColumnValue w tr (mondayToken cfg) (boardId cfg)
                   (colEmail cfg) (email c) of
              (tr1, Inl e) \<Rightarrow> (tr1, Inl e)
            | (tr1, Inr found) \<Rightarrow>
                (case upsert w cfg c tr1 k found of
                   (tr2, Inl e) \<Rightarrow> (tr2, Inl e)
                 | (tr2, Inr k') \<Rightarrow> (tr2 @ [Sleep 120], Inr k'))))"

definition iteration ::
  "world \<Rightarrow> config \<Rightarrow> GoCreateCustomerInfo \<Rightarrow> event list \<Rightarrow> counters
   \<Rightarrow> event list \<times> (error + counters)" where
  \<comment> \<open>one iteration, with its \<open>catch\<close>: \<open>Inl\<close> is what the iteration throws on\<close>
  "iteration w cfg c tr k =
     (case try_block w cfg c tr k of
        (tr', Inr k') \<Rightarrow> (tr', Inr k')
      | (tr', Inl e) \<Rightarrow>
          (if err_name e = ''MondayAuthError'' then (tr', Inl e)
           else (tr', Inr (k\<lparr>errors := errors k @ [(Email c, err_message e)]\<rparr>))))"

fun sync_loop ::
  "world \<Rightarrow> config \<Rightarrow> GoCreateCustomerInfo list \<Rightarrow> event list \<Rightarrow> counters
   \<Rightarrow> event list \<times> (error + counters)" where
  "sync_loop w cfg [] tr k = (tr, Inr k)"
| "sync_loop w cfg (c # cs) tr k =
     (case iteration w cfg c tr k of
        (tr', Inl e) \<Rightarrow> (tr', Inl e)
      | (tr', Inr k') \<Rightarrow> sync_loop w cfg cs tr' k')"

subsection \<open>runSync\<close>

definition ranKey :: string where
  "ranKey = ''sync:lastRunDateStockholm''"

definition lastRunKey :: string where
  "lastRunKey = ''sync:lastRunISO''"

record sync_result =
  tz :: string
  stockholmDate :: string
  forced :: bool
  window :: "string \<times> string"
    \<comment> \<open>startISO, endISO\<close>
  fetched :: nat
  counts :: counters
    \<comment> \<open>created, updated, skippedExisting, skippedNoEmail, errors\<close>
  finishedUtc :: string

datatype sync_output =
    Skipped
      \<comment> \<open>\<open>{ skipped: true }\<close>\<close>
  | AlreadyRan string
      \<comment> \<open>\<open>{ skipped: true, alreadyRan: true, date }\<close>\<close>
  | Finished sync_result

definition board_env ::
  "(string \<rightharpoonup> string) \<Rightarrow> error + (number \<times> string \<times> string \<times> string \<times> string)" where
  \<comment> \<open>boardId, groupId, colEmail, colTelefon, colForetag, read in this order\<close>
  "board_env e =
     (case mustGetEnv e ''MONDAY_BOARD_ID'' of Inl x \<Rightarrow> Inl x | Inr b \<Rightarrow>
     (case mustGetEnv e ''MONDAY_GROUP_ID'' of Inl x \<Rightarrow> Inl x | Inr g \<Rightarrow>
     (case mustGetEnv e ''MONDAY_COL_EMAIL'' of Inl x \<Rightarrow> Inl x | Inr ce \<Rightarrow>
     (case mustGetEnv e ''MONDAY_COL_TELEFON'' of Inl x \<Rightarrow> Inl x | Inr ct \<Rightarrow>
     (case mustGetEnv e ''MONDAY_COL_FORETAG'' of Inl x \<Rightarrow> Inl x | Inr cf \<Rightarrow>
        Inr (js_Number b, g, ce, ct, cf))))))"

definition alreadyRan :: "storage_response option \<Rightarrow> string \<Rightarrow> bool" where
  \<comment> \<open>\<open>already?.success && already.value === yyyyMMdd\<close>\<close>
  "alreadyRan already date =
     (case already of None \<Rightarrow> False | Some r \<Rightarrow> st_success r \<and> st_value r = Some date)"

definition storedLastRun :: "storage_response option \<Rightarrow> string option" where
  \<comment> \<open>\<open>stored?.success ? stored.value : undefined\<close>\<close>
  "storedLastRun stored =
     (case stored of None \<Rightarrow> None | Some r \<Rightarrow> if st_success r then st_value r else None)"

definition useStored :: "world \<Rightarrow> storage_response option \<Rightarrow> bool" where
  \<comment> \<open>\<open>storedLastRun && isValidIsoDate(storedLastRun)\<close>\<close>
  "useStored w stored =
     (\<not> falsy (storedLastRun stored) \<and> isValidIsoDate w (orEmpty (storedLastRun stored)))"

definition zero_counters :: counters where
  "zero_counters =
     \<lparr> created = 0, updated = 0, skippedExisting = 0, skippedNoEmail = 0, errors = [] \<rparr>"

definition finish ::
  "world \<Rightarrow> bool \<Rightarrow> config \<Rightarrow> string \<Rightarrow> string \<times> string \<Rightarrow> nat \<Rightarrow> nat \<Rightarrow> event list \<Rightarrow> counters
   \<Rightarrow> event list \<times> (error + sync_output)" where
  \<comment> \<open>from \<open>const nowISO = isoNowUtc()\<close> on; \<open>n\<close> is the number of earlier clock readings\<close>
  "finish w force cfg date win n total_fetched tr k =
     (case isoNowUtc w n of
        Inl e \<Rightarrow> (tr, Inl e)
      | Inr nowISO \<Rightarrow>
          (let result = \<lparr> tz = TZ, stockholmDate = date, forced = force, window = win,
                          fetched = total_fetched, counts = k, finishedUtc = nowISO \<rparr>;
               tr1 = tr @ [LogInfo ''sync finished'']
           in if \<not> force \<and> \<not> dryRun cfg \<and> errors k = []
              then (case storage_set w lastRunKey nowISO of
                      Rejected e \<Rightarrow> (tr1 @ [StorageSet lastRunKey nowISO], Inl e)
                    | Fulfilled _ \<Rightarrow>
                        (case storage_set w ranKey date of
                           Rejected e \<Rightarrow>
                             (tr1 @ [StorageSet lastRunKey nowISO, StorageSet ranKey date],
                              Inl e)
                         | Fulfilled _ \<Rightarrow>
                             (tr1 @ [StorageSet lastRunKey nowISO, StorageSet ranKey date],
                              Inr (Finished result))))
              else (tr1, Inr (Finished result))))"

definition sync_pass ::
  "world \<Rightarrow> bool \<Rightarrow> RuntimeSecrets \<Rightarrow> config \<Rightarrow> string \<Rightarrow> number \<Rightarrow> event list
   \<Rightarrow> event list \<times> (error + sync_output)" where
  \<comment> \<open>from \<open>// Date window\<close> on\<close>
  "sync_pass w force sec cfg date lookbackDays tr =
     (case storage_get w lastRunKey of
        Rejected e \<Rightarrow> (tr @ [StorageGet lastRunKey], Inl e)
      | Fulfilled stored \<Rightarrow>
          (let tr1 = tr @ [StorageGet lastRunKey];
               start = (if useStored w stored then Inr (orEmpty (storedLastRun stored))
                        else isoDaysAgoUtc w 1 lookbackDays);
               n = (if useStored w stored then 1 else 2)
           in case start of
                Inl e \<Rightarrow> (tr1, Inl e)
              | Inr start_iso \<Rightarrow>
                  (case isoNowUtc w n of
                     Inl e \<Rightarrow> (tr1, Inl e)
                   | Inr end_iso \<Rightarrow>
                       (case goCreateFetchCustomersByDateRange w tr1
                               \<lparr> baseUrl = gocreateBaseUrl sec, startISO = start_iso,
                                 endISO = end_iso, userName = gocreateUsername sec,
                                 password = gocreatePassword sec,
                                 authToken = gocreateAuthToken sec \<rparr> of
                          (tr2, Inl e) \<Rightarrow> (tr2, Inl e)
                        | (tr2, Inr customers) \<Rightarrow>
                            (case sync_loop w cfg customers tr2 zero_counters of
                               (tr3, Inl e) \<Rightarrow> (tr3, Inl e)
                             | (tr3, Inr k) \<Rightarrow>
                                 finish w force cfg date (start_iso, end_iso) (n + 1)
                                   (length customers) tr3 k)))))"

definition guarded_pass ::
  "world \<Rightarrow> bool \<Rightarrow> RuntimeSecrets \<Rightarrow> config \<Rightarrow> string \<Rightarrow> number \<Rightarrow> event list
   \<Rightarrow> event list \<times> (error + sync_output)" where
  \<comment> \<open>from \<open>// Run-once-per-day guard\<close> on\<close>
  "guarded_pass w force sec cfg date lookbackDays tr =
     (if \<not> force
      then (case storage_get w ranKey of
              Rejected e \<Rightarrow> (tr @ [StorageGet ranKey], Inl e)
            | Fulfilled already \<Rightarrow>
                if alreadyRan already date
                then (tr @ [StorageGet ranKey], Inr (AlreadyRan date))
                else sync_pass w force sec cfg date lookbackDays (tr @ [StorageGet ranKey]))
      else sync_pass w force sec cfg date lookbackDays tr)"

definition runSync :: "world \<Rightarrow> bool \<Rightarrow> event list \<times> (error + sync_output)" where
  \<comment> \<open>\<open>runSync({ force })\<close>: the calls it made, and what it threw or returned\<close>
  "runSync w force =
     (let dry = getEnvBool (env w) ''DRY_RUN'' False;
          upd = getEnvBool (env w) ''UPDATE_EXISTING'' True;
          lookbackDays = getEnvInt (env w) ''LOOKBACK_DAYS'' (Finite 1);
          now = clock w 0;
          sp = stockholmParts w now
      in if \<not> force \<and> \<not> (hour sp = Finite 23 \<and> minute sp = Finite 59)
         then ([], Inr Skipped)
         else (case getSecrets w [] of
                 (tr1, Inl e) \<Rightarrow> (tr1, Inl e)
               | (tr1, Inr sec) \<Rightarrow>
                   (case board_env (env w) of
                      Inl e \<Rightarrow> (tr1, Inl e)
                    | Inr (b, g, ce, ct, cf) \<Rightarrow>
                        guarded_pass w force sec
                          \<lparr> mondayToken = mondayAccessToken sec, boardId = b, groupId = g,
                            colEmail = ce, colTelefon = ct, colForetag = cf, dryRun = dry,
                            updateExisting = upd \<rparr>
                          (yyyyMMdd sp) lookbackDays tr1)))"

section \<open>Reading the record of a run\<close>

fun is_StorageSet :: "event \<Rightarrow> bool" where
  "is_StorageSet (StorageSet k v) = True"
| "is_StorageSet e = False"

fun is_MondayPost :: "event \<Rightarrow> bool" where
  "is_MondayPost (MondayPost t q vs) = True"
| "is_MondayPost e = False"

fun is_GoCreatePost :: "event \<Rightarrow> bool" where
  "is_GoCreatePost (GoCreatePost r) = True"
| "is_GoCreatePost e = False"

fun is_read :: "event \<Rightarrow> bool" where
  \<comment> \<open>a read of a secret or of the storage\<close>
  "is_read (SecretsGet n) = True"
| "is_read (StorageGet k) = True"
| "is_read e = False"

fun is_Sleep :: "event \<Rightarrow> bool" where
  "is_Sleep (Sleep n) = True"
| "is_Sleep e = False"

definition fetch_or_write :: "event \<Rightarrow> bool" where
  \<comment> \<open>a request to one of the two HTTP services, or a write to the storage\<close>
  "fetch_or_write e = (is_GoCreatePost e \<or> is_MondayPost e \<or> is_StorageSet e)"

definition find_call :: "config \<Rightarrow> GoCreateCustomerInfo \<Rightarrow> event" where
  \<comment> \<open>the request of \<open>mondayFindItemByColumnValue({token: mondayToken, boardId,
      columnId: colEmail, value: email})\<close>\<close>
  "find_call cfg c =
     MondayPost (mondayToken cfg) (Q_items_page_by_column_values 1)
       [(''board_id'', VString (js_String (boardId cfg))),
        (''column_id'', VString (colEmail cfg)),
        (''column_value'', VString (email c))]"

definition create_call :: "config \<Rightarrow> GoCreateCustomerInfo \<Rightarrow> event" where
  \<comment> \<open>the request of \<open>mondayCreateItem({token: mondayToken, boardId, groupId, itemName,
      columnValues})\<close>\<close>
  "create_call cfg c =
     MondayPost (mondayToken cfg) Q_create_item
       [(''board_id'', VString (js_String (boardId cfg))),
        (''group_id'', VString (groupId cfg)),
        (''item_name'', VString (itemName c)),
        (''column_values'', VJson (columnValues cfg c))]"

definition update_call :: "config \<Rightarrow> GoCreateCustomerInfo \<Rightarrow> item \<Rightarrow> event" where
  \<comment> \<open>the request of \<open>mondayUpdateItemColumns({token: mondayToken, boardId,
      itemId: found.id, columnValues})\<close>\<close>
  "update_call cfg c i =
     MondayPost (mondayToken cfg) Q_change_multiple_column_values
       [(''board_id'', VString (js_String (boardId cfg))),
        (''item_id'', VString (item_id i)),
        (''column_values'', VJson (columnValues cfg c))]"

definition upsert_calls :: "config \<Rightarrow> GoCreateCustomerInfo \<Rightarrow> item option \<Rightarrow> event list" where
  \<comment> \<open>the requests of the branch on \<open>found\<close>\<close>
  "upsert_calls cfg c found =
     (case found of
        None \<Rightarrow> if dryRun cfg then [] else [create_call cfg c]
      | Some i \<Rightarrow> if updateExisting cfg \<and> \<not> dryRun cfg then [update_call cfg c i] else [])"


definition request_of :: "string \<Rightarrow> fetch_args \<Rightarrow> gocreate_request" where
  \<comment> \<open>the request \<open>goCreateFetchCustomersByDateRange\<close> sends to the URL \<open>u\<close>\<close>
  "request_of u args =
     \<lparr> url = u, DateTime = startISO args, EndDateTime = endISO args, UserName = userName args,
       Password = password args, AuthenticationToken = authToken args \<rparr>"

definition storage_after ::
  "event list \<Rightarrow> (string \<Rightarrow> storage_response option promise)
   \<Rightarrow> string \<Rightarrow> storage_response option promise"
  where
  \<comment> \<open>what a storage that keeps its writes answers after a run whose sets it has all
      fulfilled: the value last set under a key, and its earlier answer for a key the run
      has not set\<close>
  "storage_after tr g =
     foldl (\<lambda>h e. case e of
                     StorageSet k v \<Rightarrow>
                       h(k := Fulfilled (Some \<lparr> st_success = True, st_value = Some v \<rparr>))
                   | _ \<Rightarrow> h) g tr"

definition writes_of :: "bool \<Rightarrow> bool \<Rightarrow> error + sync_output \<Rightarrow> event list" where
  \<comment> \<open>the writes to the storage that go with an outcome of \<open>runSync\<close>, given \<open>force\<close> and
      \<open>dryRun\<close>\<close>
  "writes_of force dry out =
     (case out of
        Inr (Finished r) \<Rightarrow>
          if \<not> force \<and> \<not> dry \<and> errors (counts r) = []
          then [StorageSet ''sync:lastRunISO'' (finishedUtc r),
                StorageSet ''sync:lastRunDateStockholm'' (stockholmDate r)]
          else []
      | _ \<Rightarrow> [])"

definition rejected_writes :: "world \<Rightarrow> string \<Rightarrow> error \<Rightarrow> event list \<Rightarrow> bool" where
  \<comment> \<open>the writes of a run that threw the error with which the storage rejected a set:
      the set of \<open>sync:lastRunISO\<close> alone when that was rejected, and both sets when the
      first was fulfilled and the second rejected\<close>
  "rejected_writes w date e W =
     ((\<exists>v. W = [StorageSet ''sync:lastRunISO'' v] \<and>
           storage_set w ''sync:lastRunISO'' v = Rejected e) \<or>
      (\<exists>v. W = [StorageSet ''sync:lastRunISO'' v, StorageSet ''sync:lastRunDateStockholm'' date] \<and>
           storage_set w ''sync:lastRunISO'' v = Fulfilled () \<and>
           storage_set w ''sync:lastRunDateStockholm'' date = Rejected e))"

definition no_pass :: "event list \<times> (error + sync_output) \<Rightarrow> bool" where
  \<comment> \<open>a run that neither fetched nor wrote, and did not finish a pass\<close>
  "no_pass run =
     (filter fetch_or_write (fst run) = [] \<and>
      (case snd run of Inr (Finished r) \<Rightarrow> False | _ \<Rightarrow> True))"

definition today :: "world \<Rightarrow> string" where
  \<comment> \<open>\<open>yyyyMMdd\<close> of \<open>runSync\<close>: the Stockholm calendar date of its first clock reading\<close>
  "today w = yyyyMMdd (stockholmParts w (clock w 0))"

definition at_2359 :: "world \<Rightarrow> bool" where
  \<comment> \<open>\<open>hour === 23 && minute === 59\<close> of \<open>runSync\<close>\<close>
  "at_2359 w =
     (hour (stockholmParts w (clock w 0)) = Finite 23 \<and>
      minute (stockholmParts w (clock w 0)) = Finite 59)"

definition total :: "counters \<Rightarrow> nat" where
  "total k = created k + updated k + skippedExisting k + skippedNoEmail k + length (errors k)"

section \<open>Sample worlds\<close>

text \<open>
  The sample run happens on 2023-11-14 at 22:59:30 UTC, which is 23:59 in Stockholm; its
  URL parser takes any base that is not empty, and joins base and path. The
  board holds one item, found under \<open>old@x.se\<close>; a search for \<open>bad@x.se\<close> is answered
  with HTTP 500 and one for \<open>locked@x.se\<close> with HTTP 401.
\<close>

definition sample_env :: "string \<rightharpoonup> string" where
  "sample_env =
     [''MONDAY_BOARD_ID'' \<mapsto> ''123'', ''MONDAY_GROUP_ID'' \<mapsto> ''topics'',
      ''MONDAY_COL_EMAIL'' \<mapsto> ''email'', ''MONDAY_COL_TELEFON'' \<mapsto> ''phone'',
      ''MONDAY_COL_FORETAG'' \<mapsto> ''company'']"

definition sample_secrets :: "string \<rightharpoonup> string" where
  "sample_secrets =
     [''MONDAY_ACCESS_TOKEN'' \<mapsto> ''tok'', ''GOCREATE_USERNAME'' \<mapsto> ''user'',
      ''GOCREATE_PASSWORD'' \<mapsto> ''pw'', ''GOCREATE_AUTH_TOKEN'' \<mapsto> ''auth'']"

definition sample_parts :: "string \<Rightarrow> string \<Rightarrow> (string \<times> string) list" where
  \<comment> \<open>the parts of 2023-11-14 at the given hour and minute\<close>
  "sample_parts hh mm =
     [(''year'', ''2023''), (''literal'', ''-''), (''month'', ''11''), (''literal'', ''-''),
      (''day'', ''14''), (''literal'', '' ''), (''hour'', hh), (''literal'', '':''),
      (''minute'', mm)]"

definition customer :: "string \<Rightarrow> string \<Rightarrow> string option \<Rightarrow> GoCreateCustomerInfo" where
  "customer f l e =
     \<lparr> FirstName = Some f, LastName = Some l, MobileNumber = Some ''0701'',
       Email = e, CompanyName = Some ''ACME'' \<rparr>"

definition answer :: "gql_data \<Rightarrow> monday_http promise" where
  "answer d =
     Fulfilled \<lparr> m_status = 200, m_text = Inr [],
                 m_json = Inr \<lparr> m_errors = [], m_data = Some d \<rparr> \<rparr>"

definition refusal :: "nat \<Rightarrow> string \<Rightarrow> monday_http promise" where
  "refusal st body =
     Fulfilled \<lparr> m_status = st, m_text = Inr body,
                 m_json = Inl (JsError ''SyntaxError'' ''Unexpected token'') \<rparr>"

definition sample_monday ::
  "event list \<Rightarrow> string \<Rightarrow> gql_query \<Rightarrow> (string \<times> gql_value) list \<Rightarrow> monday_http promise"
  where
  "sample_monday tr token q vars =
     (case q of
        Q_items_page_by_column_values n \<Rightarrow>
          (if map_of vars ''column_value'' = Some (VString ''bad@x.se'')
           then refusal 500 ''down''
           else if map_of vars ''column_value'' = Some (VString ''locked@x.se'')
           then refusal 401 ''no''
           else if map_of vars ''column_value'' = Some (VString ''old@x.se'')
           then answer (D_items_page_by_column_values
                          [\<lparr> item_id = ''77'', item_name = ''Old One'' \<rparr>])
           else answer (D_items_page_by_column_values []))
      | Q_create_item \<Rightarrow> answer (D_create_item ''1001'')
      | Q_change_multiple_column_values \<Rightarrow> answer (D_change_multiple_column_values ''77''))"

definition sample_world :: "GoCreateCustomerInfo list \<Rightarrow> world" where
  \<comment> \<open>the sample world in which the source system returns these customers\<close>
  "sample_world cs =
     \<lparr> env = sample_env, secrets = (\<lambda>n. Fulfilled (sample_secrets n)),
       clock = (\<lambda>n. 1700002770000 + 100 * int n),
       formatToParts = (\<lambda>t. sample_parts ''23'' ''59''),
       dateParse = (\<lambda>s. if iso_prefix s then Some 0 else None),
       newURL = (\<lambda>path base. if base = [] then None else Some (base @ path)),
       storage_get = (\<lambda>k. Fulfilled None),
       storage_set = (\<lambda>k v. Fulfilled ()),
       gocreate = (\<lambda>r. Fulfilled \<lparr> gc_status = 200, gc_text = Inr [],
                     gc_json = Inr \<lparr> CustomerInfo = Some cs, IsValidResult = Some True,
                                    ErrorCode = None, ErrorMessage = None \<rparr> \<rparr>),
       monday = sample_monday \<rparr>"

definition sample_config :: config where
  \<comment> \<open>the constants \<open>runSync\<close> reads in the sample world\<close>
  "sample_config =
     \<lparr> mondayToken = ''tok'', boardId = Finite 123, groupId = ''topics'', colEmail = ''email'',
       colTelefon = ''phone'', colForetag = ''company'', dryRun = False,
       updateExisting = True \<rparr>"

definition ada :: GoCreateCustomerInfo where
  \<comment> \<open>a customer the board does not hold yet\<close>
  "ada = customer ''Ada'' ''Berg'' (Some '' New@X.se '')"

definition old_one :: GoCreateCustomerInfo where
  \<comment> \<open>the customer the board holds\<close>
  "old_one = customer ''Old'' ''One'' (Some ''old@x.se'')"

definition no_mail :: GoCreateCustomerInfo where
  "no_mail = customer ''No'' ''Mail'' (Some ''  '')"

definition bad :: GoCreateCustomerInfo where
  \<comment> \<open>a customer whose search fails with HTTP 500\<close>
  "bad = customer ''Bo'' ''Ek'' (Some ''bad@x.se'')"

definition locked :: GoCreateCustomerInfo where
  \<comment> \<open>a customer whose search fails with HTTP 401\<close>
  "locked = customer ''Li'' ''Ask'' (Some ''locked@x.se'')"


definition no_update_world :: world where
  \<comment> \<open>the sample world with \<open>UPDATE_EXISTING=false\<close>, the source system returning the
      customer the board holds\<close>
  "no_update_world =
     (sample_world [old_one])\<lparr> env := sample_env(''UPDATE_EXISTING'' \<mapsto> ''false'') \<rparr>"

definition stored_world :: world where
  \<comment> \<open>the sample world with a last run stored\<close>
  "stored_world =
     (sample_world [ada])\<lparr> storage_get :=
        (\<lambda>k. if k = ''sync:lastRunISO''
              then Fulfilled (Some \<lparr> st_success = True,
                                     st_value = Some ''2023-11-13T22:59:31.000Z'' \<rparr>)
              else Fulfilled None) \<rparr>"

definition lookback_world :: "string \<Rightarrow> world" where
  \<comment> \<open>the sample world with \<open>LOOKBACK_DAYS\<close> set\<close>
  "lookback_world v = (sample_world [ada])\<lparr> env := sample_env(''LOOKBACK_DAYS'' \<mapsto> v) \<rparr>"

definition set_fails_world :: world where
  \<comment> \<open>the sample world with a storage that rejects the set of the second key\<close>
  "set_fails_world =
     (sample_world [ada])\<lparr> storage_set :=
        (\<lambda>k v. if k = ''sync:lastRunDateStockholm''
                then Rejected (JsError ''Error'' ''storage unavailable'')
                else Fulfilled ()) \<rparr>"

definition rerun :: "world \<Rightarrow> world" where
  \<comment> \<open>the world of a second, non-forced run at the same clock readings, on the storage as
      the first run left it\<close>
  "rerun w = w\<lparr> storage_get := storage_after (fst (runSync w False)) (storage_get w) \<rparr>"

definition ada_result :: sync_result where
  \<comment> \<open>what the non-forced run returns when the source system returns \<open>ada\<close>\<close>
  "ada_result =
     \<lparr> tz = ''Europe/Stockholm'', stockholmDate = ''2023-11-14'', forced = False,
       window = (''2023-11-13T22:59:30.100Z'', ''2023-11-14T22:59:30.200Z''), fetched = 1,
       counts = \<lparr> created = 1, updated = 0, skippedExisting = 0, skippedNoEmail = 0,
                  errors = [] \<rparr>,
       finishedUtc = ''2023-11-14T22:59:30.300Z'' \<rparr>"

definition mixed_result :: sync_result where
  \<comment> \<open>what the non-forced run returns when the source system returns \<open>ada\<close>, \<open>old_one\<close>,
      \<open>no_mail\<close> and \<open>bad\<close>\<close>
  "mixed_result =
     \<lparr> tz = ''Europe/Stockholm'', stockholmDate = ''2023-11-14'', forced = False,
       window = (''2023-11-13T22:59:30.100Z'', ''2023-11-14T22:59:30.200Z''), fetched = 4,
       counts = \<lparr> created = 1, updated = 1, skippedExisting = 0, skippedNoEmail = 1,
                  errors = [(Some ''bad@x.se'', ''monday HTTP 500: down'')] \<rparr>,
       finishedUtc = ''2023-11-14T22:59:30.300Z'' \<rparr>"

section \<open>The calls of the board system's wrappers\<close>

lemma mondayGraphql_trace: "fst (mondayGraphql w tr t q v) = tr @ [MondayPost t q v]"
  by (simp add: mondayGraphql_def)

lemma find_trace:
  "fst (mondayFindItemByColumnValue w tr (mondayToken cfg) (boardId cfg) (colEmail cfg) (email c))
     = tr @ [find_call cfg c]"
  by (simp add: mondayFindItemByColumnValue_def mondayGraphql_def find_call_def
           split: sum.split gql_data.split)

lemma create_trace:
  "fst (mondayCreateItem w tr (mondayToken cfg) (boardId cfg) (groupId cfg) (itemName c)
          (columnValues cfg c)) = tr @ [create_call cfg c]"
  by (simp add: mondayCreateItem_def mondayGraphql_def create_call_def
           split: sum.split gql_data.split)

lemma update_trace:
  "fst (mondayUpdateItemColumns w tr (mondayToken cfg) (boardId cfg) (item_id i)
          (columnValues cfg c)) = tr @ [update_call cfg c i]"
  by (simp add: mondayUpdateItemColumns_def mondayGraphql_def update_call_def
           split: sum.split gql_data.split)

lemma create_traceD:
  "mondayCreateItem w tr (mondayToken cfg) (boardId cfg) (groupId cfg) (itemName c)
          (columnValues cfg c) = (tr', r) \<Longrightarrow> tr' = tr @ [create_call cfg c]"
  using create_trace[of w tr cfg c] by simp

lemma update_traceD:
  "mondayUpdateItemColumns w tr (mondayToken cfg) (boardId cfg) (item_id i)
          (columnValues cfg c) = (tr', r) \<Longrightarrow> tr' = tr @ [update_call cfg c i]"
  using update_trace[of w tr cfg i c] by simp

lemma find_traceD:
  "mondayFindItemByColumnValue w tr (mondayToken cfg) (boardId cfg) (colEmail cfg) (email c)
     = (tr', r) \<Longrightarrow> tr' = tr @ [find_call cfg c]"
  using find_trace[of w tr cfg c] by simp

lemma upsert_trace: "fst (upsert w cfg c tr k found) = tr @ upsert_calls cfg c found"
  by (auto simp add: upsert_def upsert_calls_def split: option.split prod.split sum.split
           dest: create_traceD update_traceD)

lemma upsert_traceD: "upsert w cfg c tr k found = (tr', r) \<Longrightarrow> tr' = tr @ upsert_calls cfg c found"
  using upsert_trace[of w cfg c tr k found] by simp

lemma try_block_trace:
  "emailRaw c \<noteq> [] \<Longrightarrow>
   fst (try_block w cfg c tr k) =
     tr @ find_call cfg c #
       (case snd (mondayFindItemByColumnValue w tr (mondayToken cfg) (boardId cfg)
                    (colEmail cfg) (email c)) of
          Inl e \<Rightarrow> []
        | Inr found \<Rightarrow>
            upsert_calls cfg c found @
            (case snd (upsert w cfg c (tr @ [find_call cfg c]) k found) of
               Inl e \<Rightarrow> [] | Inr k' \<Rightarrow> [Sleep 120]))"
proof -
  assume ne: "emailRaw c \<noteq> []"
  obtain r1 where f:
    "mondayFindItemByColumnValue w tr (mondayToken cfg) (boardId cfg) (colEmail cfg) (email c)
       = (tr @ [find_call cfg c], r1)"
    using find_trace[of w tr cfg c] by (metis prod.collapse)
  show ?thesis
  proof (cases r1)
    case (Inl e)
    then show ?thesis using ne f by (simp add: try_block_def)
  next
    case (Inr found)
    obtain r2 where u:
      "upsert w cfg c (tr @ [find_call cfg c]) k found
         = ((tr @ [find_call cfg c]) @ upsert_calls cfg c found, r2)"
      using upsert_trace[of w cfg c "tr @ [find_call cfg c]" k found] by (metis prod.collapse)
    show ?thesis using ne f Inr u by (cases r2) (simp_all add: try_block_def)
  qed
qed

lemma iteration_trace: "fst (iteration w cfg c tr k) = fst (try_block w cfg c tr k)"
  by (simp add: iteration_def split: prod.split sum.split)


subsection \<open>The events of the loop\<close>

lemma iteration_events:
  "\<exists>evs. fst (iteration w cfg c tr k) = tr @ evs \<and> (\<forall>e\<in>set evs. is_MondayPost e \<or> is_Sleep e)"
proof (cases "emailRaw c = []")
  case True
  then show ?thesis by (simp add: iteration_trace try_block_def)
next
  case False
  show ?thesis
    unfolding iteration_trace try_block_trace[OF False]
    by (auto simp add: find_call_def upsert_calls_def create_call_def update_call_def
             split: sum.split option.split)
qed

lemma sync_loop_events:
  "\<exists>evs. fst (sync_loop w cfg cs tr k) = tr @ evs \<and> (\<forall>e\<in>set evs. is_MondayPost e \<or> is_Sleep e)"
proof (induction cs arbitrary: tr k)
  case Nil
  show ?case by simp
next
  case (Cons c cs)
  obtain evs where evs: "fst (iteration w cfg c tr k) = tr @ evs"
    "\<forall>e\<in>set evs. is_MondayPost e \<or> is_Sleep e"
    using iteration_events by blast
  show ?case
  proof (cases "snd (iteration w cfg c tr k)")
    case (Inl e)
    then show ?thesis using evs by (auto simp add: split_beta)
  next
    case (Inr k')
    obtain evs' where evs': "fst (sync_loop w cfg cs (tr @ evs) k') = (tr @ evs) @ evs'"
      "\<forall>e\<in>set evs'. is_MondayPost e \<or> is_Sleep e"
      using Cons.IH by blast
    have "fst (sync_loop w cfg (c # cs) tr k) = tr @ (evs @ evs')"
      using Inr evs(1) evs'(1) by (simp add: split_beta)
    then show ?thesis using evs(2) evs'(2) by (metis Un_iff set_append)
  qed
qed

lemma sync_loop_append:
  "sync_loop w cfg (cs1 @ cs2) tr k =
     (case sync_loop w cfg cs1 tr k of
        (tr', Inl e) \<Rightarrow> (tr', Inl e)
      | (tr', Inr k') \<Rightarrow> sync_loop w cfg cs2 tr' k')"
  by (induction cs1 arbitrary: tr k) (auto split: prod.split sum.split)

subsection \<open>The counters of the loop\<close>

lemma upsert_total: "upsert w cfg c tr k found = (tr', Inr k') \<Longrightarrow> total k' = total k + 1"
  by (auto simp add: upsert_def total_def split: option.splits if_splits prod.splits sum.splits)

lemma try_block_total: "try_block w cfg c tr k = (tr', Inr k') \<Longrightarrow> total k' = total k + 1"
  by (auto simp add: try_block_def total_def split: if_splits prod.splits sum.splits
           dest: upsert_total)

lemma iteration_total: "iteration w cfg c tr k = (tr', Inr k') \<Longrightarrow> total k' = total k + 1"
  by (auto simp add: iteration_def split: prod.splits sum.splits if_splits
           dest: try_block_total) (simp add: total_def)

lemma sync_loop_total:
  "sync_loop w cfg cs tr k = (tr', Inr k') \<Longrightarrow> total k' = total k + length cs"
proof (induction cs arbitrary: tr k)
  case Nil
  then show ?case by simp
next
  case (Cons c cs)
  then show ?case
    by (auto split: prod.splits sum.splits dest!: iteration_total)
qed


subsection \<open>The pass\<close>

lemma finish_Finished:
  "finish w force cfg date win n m tr k = (tr', Inr out) \<Longrightarrow>
   \<exists>r. out = Finished r \<and> counts r = k \<and> fetched r = m \<and> stockholmDate r = date \<and>
       forced r = force \<and> window r = win \<and> isoNowUtc w n = Inr (finishedUtc r)"
  by (auto simp add: finish_def Let_def split: sum.splits if_splits promise.splits)

lemma sync_pass_Finished:
  assumes "sync_pass w force sec cfg date lb tr = (tr', Inr out)"
  shows "\<exists>r. out = Finished r \<and> total (counts r) = fetched r \<and> stockholmDate r = date"
proof -
  from assms obtain customers tr2 tr3 k win n where
    l: "sync_loop w cfg customers tr2 zero_counters = (tr3, Inr k)" and
    f: "finish w force cfg date win n (length customers) tr3 k = (tr', Inr out)"
    by (auto simp add: sync_pass_def Let_def
             split: sum.splits prod.splits if_splits promise.splits)
  from sync_loop_total[OF l] have "total k = length customers"
    by (simp add: total_def zero_counters_def)
  with finish_Finished[OF f] show ?thesis by auto
qed

lemma secret_reads:
  "secret w tr name = (tr', r) \<Longrightarrow> tr' = tr @ [SecretsGet name]"
  by (auto simp add: secret_def)

lemma getSecrets_reads:
  assumes "getSecrets w [] = (tr, r)"
  shows "tr \<noteq> [] \<and> list_all is_read tr"
  using assms
  by (auto simp add: getSecrets_def split: sum.splits prod.splits if_splits
           dest!: secret_reads)

lemma runSync_cases:
  assumes "runSync w force = (tr, out)"
  shows "(\<not> force \<and> \<not> at_2359 w \<and> tr = [] \<and> out = Inr Skipped) \<or>
         ((force \<or> at_2359 w) \<and> tr \<noteq> [] \<and> list_all is_read tr \<and> (\<exists>e. out = Inl e)) \<or>
         ((force \<or> at_2359 w) \<and>
          (\<exists>sec cfg tr1. tr1 \<noteq> [] \<and> list_all is_read tr1 \<and>
             dryRun cfg = getEnvBool (env w) ''DRY_RUN'' False \<and>
             guarded_pass w force sec cfg (today w)
               (getEnvInt (env w) ''LOOKBACK_DAYS'' (Finite 1)) tr1 = (tr, out)))"
proof (cases "\<not> force \<and> \<not> at_2359 w")
  case True
  then show ?thesis using assms by (auto simp add: runSync_def Let_def at_2359_def)
next
  case False
  then have g: "force \<or> at_2359 w" by simp
  obtain tr1 r1 where s: "getSecrets w [] = (tr1, r1)" by (metis prod.collapse)
  note rd = getSecrets_reads[OF s]
  show ?thesis
  proof (cases r1)
    case (Inl e)
    then show ?thesis using assms g s rd
      by (auto simp add: runSync_def Let_def at_2359_def)
  next
    case (Inr sec)
    show ?thesis
    proof (cases "board_env (env w)")
      case (Inl e)
      then show ?thesis using assms g s rd Inr
        by (auto simp add: runSync_def Let_def at_2359_def)
    next
      case b: (Inr v)
      obtain b1 g1 ce ct cf where v: "v = (b1, g1, ce, ct, cf)" by (cases v) auto
      have "guarded_pass w force sec
              \<lparr> mondayToken = mondayAccessToken sec, boardId = b1, groupId = g1,
                colEmail = ce, colTelefon = ct, colForetag = cf,
                dryRun = getEnvBool (env w) ''DRY_RUN'' False,
                updateExisting = getEnvBool (env w) ''UPDATE_EXISTING'' True \<rparr>
              (today w) (getEnvInt (env w) ''LOOKBACK_DAYS'' (Finite 1)) tr1 = (tr, out)"
        using assms g s Inr b v
        by (auto simp add: runSync_def Let_def at_2359_def today_def)
      then show ?thesis using g rd by (simp (no_asm_simp)) (metis config.select_convs(7))
    qed
  qed
qed

lemma guarded_pass_cases:
  assumes "guarded_pass w force sec cfg date lb tr = (tr', out)"
  shows "(\<not> force \<and> tr' = tr @ [StorageGet ranKey] \<and>
            (\<exists>e. storage_get w ranKey = Rejected e \<and> out = Inl e)) \<or>
         (\<not> force \<and> tr' = tr @ [StorageGet ranKey] \<and> out = Inr (AlreadyRan date) \<and>
            (\<exists>a. storage_get w ranKey = Fulfilled a \<and> alreadyRan a date)) \<or>
         ((force \<or> (\<exists>a. storage_get w ranKey = Fulfilled a \<and> \<not> alreadyRan a date)) \<and>
          (\<exists>tr1. (tr1 = tr \<or> tr1 = tr @ [StorageGet ranKey]) \<and>
             sync_pass w force sec cfg date lb tr1 = (tr', out)))"
  using assms
  by (auto simp add: guarded_pass_def split: if_splits promise.splits)

lemma runSync_Finished:
  assumes "snd (runSync w force) = Inr (Finished r)"
  shows "total (counts r) = fetched r"
proof -
  obtain tr where r: "runSync w force = (tr, Inr (Finished r))"
    using assms by (metis prod.collapse)
  from runSync_cases[OF r] obtain sec cfg tr1 where
    "guarded_pass w force sec cfg (today w)
       (getEnvInt (env w) ''LOOKBACK_DAYS'' (Finite 1)) tr1 = (tr, Inr (Finished r))"
    by auto
  from guarded_pass_cases[OF this] obtain tr2 where
    "sync_pass w force sec cfg (today w)
       (getEnvInt (env w) ''LOOKBACK_DAYS'' (Finite 1)) tr2 = (tr, Inr (Finished r))"
    by auto
  from sync_pass_Finished[OF this] show ?thesis by auto
qed


subsection \<open>The writes to the storage\<close>

lemma loop_event_no_write: "is_MondayPost e \<or> is_Sleep e \<Longrightarrow> \<not> is_StorageSet e"
  by (cases e) simp_all

lemma sync_loop_writes:
  "filter is_StorageSet (fst (sync_loop w cfg cs tr k)) = filter is_StorageSet tr"
proof -
  obtain evs where "fst (sync_loop w cfg cs tr k) = tr @ evs"
    "\<forall>e\<in>set evs. is_MondayPost e \<or> is_Sleep e"
    using sync_loop_events by blast
  then show ?thesis using loop_event_no_write by (simp add: filter_empty_conv)
qed

lemma sync_loop_writesD:
  "sync_loop w cfg cs tr k = (tr', r) \<Longrightarrow> filter is_StorageSet tr' = filter is_StorageSet tr"
  using sync_loop_writes[of w cfg cs tr k] by simp

lemma reads_no_write: "list_all is_read tr \<Longrightarrow> filter is_StorageSet tr = []"
proof (induction tr)
  case Nil
  show ?case by simp
next
  case (Cons e tr)
  then show ?case by (cases e) simp_all
qed

lemma fetch_writesD:
  "goCreateFetchCustomersByDateRange w tr args = (tr', r) \<Longrightarrow>
   filter is_StorageSet tr' = filter is_StorageSet tr"
  by (auto simp add: goCreateFetchCustomersByDateRange_def split: option.splits)

lemma finish_writes_Inr:
  "finish w force cfg date win n m tr k = (tr', Inr out) \<Longrightarrow>
   filter is_StorageSet tr' = filter is_StorageSet tr @ writes_of force (dryRun cfg) (Inr out)"
  by (auto simp add: finish_def writes_of_def lastRunKey_def ranKey_def Let_def
           split: sum.splits promise.splits if_splits)

lemma finish_writes_Inl:
  "finish w force cfg date win n m tr k = (tr', Inl e) \<Longrightarrow>
   filter is_StorageSet tr' = filter is_StorageSet tr \<or>
   (\<not> force \<and> \<not> dryRun cfg \<and>
    (\<exists>W. filter is_StorageSet tr' = filter is_StorageSet tr @ W \<and> rejected_writes w date e W))"
  by (auto simp add: finish_def rejected_writes_def lastRunKey_def ranKey_def Let_def
           split: sum.splits promise.splits if_splits)

lemma sync_pass_writes_Inr:
  assumes "sync_pass w force sec cfg date lb tr = (tr', Inr out)"
  shows "filter is_StorageSet tr' =
           filter is_StorageSet tr @ writes_of force (dryRun cfg) (Inr out)"
proof -
  from assms obtain args customers tr2 tr3 k win n where
    g: "goCreateFetchCustomersByDateRange w (tr @ [StorageGet lastRunKey]) args
          = (tr2, Inr customers)" and
    l: "sync_loop w cfg customers tr2 zero_counters = (tr3, Inr k)" and
    f: "finish w force cfg date win n (length customers) tr3 k = (tr', Inr out)"
    by (auto simp add: sync_pass_def Let_def
             split: sum.splits prod.splits if_splits promise.splits)
  from fetch_writesD[OF g] sync_loop_writesD[OF l] finish_writes_Inr[OF f]
  show ?thesis by simp
qed

lemma sync_pass_writes_Inl:
  assumes "sync_pass w force sec cfg date lb tr = (tr', Inl e)"
  shows "filter is_StorageSet tr' = filter is_StorageSet tr \<or>
         (\<not> force \<and> \<not> dryRun cfg \<and>
          (\<exists>W. filter is_StorageSet tr' = filter is_StorageSet tr @ W \<and>
               rejected_writes w date e W))"
proof (cases "\<exists>args customers tr2 tr3 k win n.
    goCreateFetchCustomersByDateRange w (tr @ [StorageGet lastRunKey]) args
          = (tr2, Inr customers) \<and>
    sync_loop w cfg customers tr2 zero_counters = (tr3, Inr k) \<and>
    finish w force cfg date win n (length customers) tr3 k = (tr', Inl e)")
  case True
  then obtain args customers tr2 tr3 k win n where
    g: "goCreateFetchCustomersByDateRange w (tr @ [StorageGet lastRunKey]) args
          = (tr2, Inr customers)" and
    l: "sync_loop w cfg customers tr2 zero_counters = (tr3, Inr k)" and
    f: "finish w force cfg date win n (length customers) tr3 k = (tr', Inl e)"
    by blast
  from fetch_writesD[OF g] sync_loop_writesD[OF l] finish_writes_Inl[OF f]
  show ?thesis by simp
next
  case False
  with assms have "filter is_StorageSet tr' = filter is_StorageSet tr"
    by (auto simp add: sync_pass_def Let_def
             split: sum.splits prod.splits if_splits promise.splits
             dest!: fetch_writesD sync_loop_writesD)
  then show ?thesis by simp
qed

lemma guarded_pass_writes_Inr:
  assumes "guarded_pass w force sec cfg date lb tr = (tr', Inr out)"
  shows "filter is_StorageSet tr' =
           filter is_StorageSet tr @ writes_of force (dryRun cfg) (Inr out)"
proof -
  from guarded_pass_cases[OF assms] consider
    (already) "tr' = tr @ [StorageGet ranKey]" "out = AlreadyRan date" |
    (pass) tr1 where "tr1 = tr \<or> tr1 = tr @ [StorageGet ranKey]"
      "sync_pass w force sec cfg date lb tr1 = (tr', Inr out)"
    by auto
  then show ?thesis
  proof cases
    case already
    then show ?thesis by (simp add: writes_of_def)
  next
    case pass
    from sync_pass_writes_Inr[OF pass(2)] pass(1) show ?thesis by auto
  qed
qed

lemma guarded_pass_writes_Inl:
  assumes "guarded_pass w force sec cfg date lb tr = (tr', Inl e)"
  shows "filter is_StorageSet tr' = filter is_StorageSet tr \<or>
         (\<not> force \<and> \<not> dryRun cfg \<and>
          (\<exists>W. filter is_StorageSet tr' = filter is_StorageSet tr @ W \<and>
               rejected_writes w date e W))"
proof -
  from guarded_pass_cases[OF assms] consider
    (rejected) "tr' = tr @ [StorageGet ranKey]" |
    (pass) tr1 where "tr1 = tr \<or> tr1 = tr @ [StorageGet ranKey]"
      "sync_pass w force sec cfg date lb tr1 = (tr', Inl e)"
    by auto
  then show ?thesis
  proof cases
    case rejected
    then show ?thesis by simp
  next
    case pass
    from sync_pass_writes_Inl[OF pass(2)] pass(1) show ?thesis by auto
  qed
qed

lemma runSync_writes_Inr:
  assumes "runSync w force = (tr, Inr out)"
  shows "filter is_StorageSet tr =
           writes_of force (getEnvBool (env w) ''DRY_RUN'' False) (Inr out)"
proof -
  from runSync_cases[OF assms] consider
    (skipped) "tr = []" "out = Skipped" |
    (pass) sec cfg tr1 where "list_all is_read tr1"
      "dryRun cfg = getEnvBool (env w) ''DRY_RUN'' False"
      "guarded_pass w force sec cfg (today w)
         (getEnvInt (env w) ''LOOKBACK_DAYS'' (Finite 1)) tr1 = (tr, Inr out)"
    by auto
  then show ?thesis
  proof cases
    case skipped
    then show ?thesis by (simp add: writes_of_def)
  next
    case pass
    from guarded_pass_writes_Inr[OF pass(3)] reads_no_write[OF pass(1)] pass(2)
    show ?thesis by simp
  qed
qed

lemma runSync_writes_Inl:
  assumes "runSync w force = (tr, Inl e)"
  shows "filter is_StorageSet tr = [] \<or>
         (\<not> force \<and> \<not> getEnvBool (env w) ''DRY_RUN'' False \<and>
          rejected_writes w (today w) e (filter is_StorageSet tr))"
proof -
  from runSync_cases[OF assms] consider
    (reads) "list_all is_read tr" |
    (pass) sec cfg tr1 where "list_all is_read tr1"
      "dryRun cfg = getEnvBool (env w) ''DRY_RUN'' False"
      "guarded_pass w force sec cfg (today w)
         (getEnvInt (env w) ''LOOKBACK_DAYS'' (Finite 1)) tr1 = (tr, Inl e)"
    by auto
  then show ?thesis
  proof cases
    case reads
    then show ?thesis by (simp add: reads_no_write)
  next
    case pass
    from guarded_pass_writes_Inl[OF pass(3)] reads_no_write[OF pass(1)] pass(2)
    show ?thesis by auto
  qed
qed


subsection \<open>The time gate and the guard\<close>


lemma reads_no_fetch_or_write: "list_all is_read tr \<Longrightarrow> filter fetch_or_write tr = []"
proof (induction tr)
  case Nil
  show ?case by simp
next
  case (Cons e tr)
  then show ?case by (cases e) (simp_all add: fetch_or_write_def)
qed

lemma guard_skips:
  assumes "storage_get w ranKey = Fulfilled a" and "alreadyRan a (today w)"
  shows "no_pass (runSync w False)"
proof -
  obtain tr out where r: "runSync w False = (tr, out)" by (metis prod.collapse)
  from runSync_cases[OF r] consider
    (skipped) "tr = []" "out = Inr Skipped" |
    (reads) e where "list_all is_read tr" "out = Inl e" |
    (pass) sec cfg tr1 where "list_all is_read tr1"
      "guarded_pass w False sec cfg (today w)
         (getEnvInt (env w) ''LOOKBACK_DAYS'' (Finite 1)) tr1 = (tr, out)"
    by auto
  then show ?thesis
  proof cases
    case skipped
    then show ?thesis using r by (simp add: no_pass_def)
  next
    case reads
    then show ?thesis using r by (simp add: no_pass_def reads_no_fetch_or_write)
  next
    case pass
    from pass(2) assms have "tr = tr1 @ [StorageGet ranKey]" "out = Inr (AlreadyRan (today w))"
      by (simp_all add: guarded_pass_def)
    then show ?thesis using r reads_no_fetch_or_write[OF pass(1)]
      by (simp add: no_pass_def fetch_or_write_def)
  qed
qed

lemma storage_after_filter:
  "storage_after tr g = storage_after (filter is_StorageSet tr) g"
proof (induction tr arbitrary: g)
  case Nil
  show ?case by simp
next
  case (Cons e tr)
  show ?case
  proof (cases e)
    case (StorageSet k v)
    then show ?thesis using Cons.IH by (simp add: storage_after_def)
  qed (use Cons.IH in \<open>simp_all add: storage_after_def\<close>)
qed

lemma storage_after_clean_pass:
  assumes "runSync w False = (tr, Inr (Finished r))"
    and "errors (counts r) = []"
    and "\<not> getEnvBool (env w) ''DRY_RUN'' False"
  shows "storage_after tr (storage_get w) ranKey
           = Fulfilled (Some \<lparr> st_success = True, st_value = Some (stockholmDate r) \<rparr>)"
proof -
  have "filter is_StorageSet tr =
          [StorageSet ''sync:lastRunISO'' (finishedUtc r),
           StorageSet ''sync:lastRunDateStockholm'' (stockholmDate r)]"
    using runSync_writes_Inr[OF assms(1)] assms(2,3) by (simp add: writes_of_def)
  then show ?thesis
    by (subst storage_after_filter) (simp add: storage_after_def ranKey_def)
qed

lemma rerun_skips:
  assumes "runSync w1 False = (tr, Inr (Finished r))"
    and "errors (counts r) = []"
    and "\<not> getEnvBool (env w1) ''DRY_RUN'' False"
    and "storage_get w2 = storage_after tr (storage_get w1)"
    and "today w2 = stockholmDate r"
  shows "no_pass (runSync w2 False)"
proof -
  have "storage_get w2 ranKey
          = Fulfilled (Some \<lparr> st_success = True, st_value = Some (today w2) \<rparr>)"
    using storage_after_clean_pass[OF assms(1-3)] assms(4,5) by simp
  from guard_skips[OF this] show ?thesis by (simp add: alreadyRan_def)
qed

subsection \<open>The window\<close>

lemma loop_event_no_fetch: "is_MondayPost e \<or> is_Sleep e \<Longrightarrow> \<not> is_GoCreatePost e"
  by (cases e) simp_all

lemma sync_loop_fetchesD:
  "sync_loop w cfg cs tr k = (tr', r) \<Longrightarrow> filter is_GoCreatePost tr' = filter is_GoCreatePost tr"
proof -
  assume a: "sync_loop w cfg cs tr k = (tr', r)"
  obtain evs where "fst (sync_loop w cfg cs tr k) = tr @ evs"
    "\<forall>e\<in>set evs. is_MondayPost e \<or> is_Sleep e"
    using sync_loop_events by blast
  then show ?thesis using loop_event_no_fetch a by (simp add: filter_empty_conv)
qed

lemma finish_fetchesD:
  "finish w force cfg date win n m tr k = (tr', r) \<Longrightarrow>
   filter is_GoCreatePost tr' = filter is_GoCreatePost tr"
  by (auto simp add: finish_def Let_def split: sum.splits promise.splits if_splits)

lemma reads_no_fetch: "list_all is_read tr \<Longrightarrow> filter is_GoCreatePost tr = []"
proof (induction tr)
  case Nil
  show ?case by simp
next
  case (Cons e tr)
  then show ?case by (cases e) simp_all
qed

lemma fetch_fetchesD:
  "goCreateFetchCustomersByDateRange w tr args = (tr', r) \<Longrightarrow>
   (newURL w ''/Customer/ByDateRange/'' (baseUrl args) = None \<and> tr' = tr) \<or>
   (\<exists>u. newURL w ''/Customer/ByDateRange/'' (baseUrl args) = Some u \<and>
        tr' = tr @ [GoCreatePost (request_of u args)])"
  by (auto simp add: goCreateFetchCustomersByDateRange_def request_of_def split: option.splits)

lemma after_fetch_fetches:
  assumes "(case r2 of
              Inl e \<Rightarrow> (tr2, Inl e)
            | Inr customers \<Rightarrow>
                (case sync_loop w cfg customers tr2 zero_counters of
                   (tr3, Inl e) \<Rightarrow> (tr3, Inl e)
                 | (tr3, Inr k) \<Rightarrow>
                     finish w force cfg date win n (length customers) tr3 k)) = (tr', out)"
  shows "filter is_GoCreatePost tr' = filter is_GoCreatePost tr2"
  using assms
  by (auto split: sum.splits prod.splits dest!: sync_loop_fetchesD finish_fetchesD)

lemma sync_pass_fetches:
  assumes "sync_pass w force sec cfg date lb tr = (tr', out)"
  shows "filter is_GoCreatePost tr' = filter is_GoCreatePost tr \<or>
         (\<exists>stored start_iso end_iso u.
            storage_get w lastRunKey = Fulfilled stored \<and>
            (if useStored w stored then Inr (orEmpty (storedLastRun stored))
             else isoDaysAgoUtc w 1 lb) = Inr start_iso \<and>
            isoNowUtc w (if useStored w stored then 1 else 2) = Inr end_iso \<and>
            newURL w ''/Customer/ByDateRange/'' (gocreateBaseUrl sec) = Some u \<and>
            filter is_GoCreatePost tr' =
              filter is_GoCreatePost tr @
              [GoCreatePost \<lparr> url = u, DateTime = start_iso, EndDateTime = end_iso,
                              UserName = gocreateUsername sec,
                              Password = gocreatePassword sec,
                              AuthenticationToken = gocreateAuthToken sec \<rparr>])"
proof (cases "storage_get w lastRunKey")
  case (Rejected e)
  then show ?thesis using assms by (auto simp add: sync_pass_def)
next
  case (Fulfilled stored)
  let ?start = "if useStored w stored then Inr (orEmpty (storedLastRun stored))
                else isoDaysAgoUtc w 1 lb"
  let ?n = "if useStored w stored then 1 else 2"
  show ?thesis
  proof (cases ?start)
    case (Inl e)
    then show ?thesis using assms Fulfilled by (auto simp add: sync_pass_def Let_def)
  next
    case s: (Inr start_iso)
    show ?thesis
    proof (cases "isoNowUtc w ?n")
      case (Inl e)
      then show ?thesis using assms Fulfilled s by (auto simp add: sync_pass_def Let_def)
    next
      case e: (Inr end_iso)
      let ?args = "\<lparr> baseUrl = gocreateBaseUrl sec, startISO = start_iso, endISO = end_iso,
                     userName = gocreateUsername sec, password = gocreatePassword sec,
                     authToken = gocreateAuthToken sec \<rparr>"
      obtain tr2 r2 where
        g: "goCreateFetchCustomersByDateRange w (tr @ [StorageGet lastRunKey]) ?args = (tr2, r2)"
        by (metis prod.collapse)
      have "(case r2 of
              Inl e \<Rightarrow> (tr2, Inl e)
            | Inr customers \<Rightarrow>
                (case sync_loop w cfg customers tr2 zero_counters of
                   (tr3, Inl e) \<Rightarrow> (tr3, Inl e)
                 | (tr3, Inr k) \<Rightarrow>
                     finish w force cfg date (start_iso, end_iso) (?n + 1) (length customers)
                       tr3 k)) = (tr', out)"
        using assms Fulfilled s e g
        by (simp add: sync_pass_def Let_def split: if_splits cong: sum.case_cong prod.case_cong)
      from after_fetch_fetches[OF this]
      have a: "filter is_GoCreatePost tr' = filter is_GoCreatePost tr2" .
      from fetch_fetchesD[OF g] consider
        (invalid) "tr2 = tr @ [StorageGet lastRunKey]" |
        (sent) u where "newURL w ''/Customer/ByDateRange/'' (gocreateBaseUrl sec) = Some u"
          "tr2 = (tr @ [StorageGet lastRunKey]) @ [GoCreatePost (request_of u ?args)]"
        by auto
      then show ?thesis
      proof cases
        case invalid
        then show ?thesis using a by simp
      next
        case u: sent
        have "filter is_GoCreatePost tr' =
                filter is_GoCreatePost tr @
                [GoCreatePost \<lparr> url = u, DateTime = start_iso, EndDateTime = end_iso,
                                UserName = gocreateUsername sec,
                                Password = gocreatePassword sec,
                                AuthenticationToken = gocreateAuthToken sec \<rparr>]"
          using a u(2) by (simp add: request_of_def)
        then show ?thesis using Fulfilled s e u(1) by blast
      qed
    qed
  qed
qed

lemma guarded_pass_fetches:
  assumes "guarded_pass w force sec cfg date lb tr = (tr', out)"
    and "filter is_GoCreatePost tr = []"
  shows "filter is_GoCreatePost tr' = [] \<or>
         (\<exists>stored start_iso end_iso u.
            storage_get w lastRunKey = Fulfilled stored \<and>
            (if useStored w stored then Inr (orEmpty (storedLastRun stored))
             else isoDaysAgoUtc w 1 lb) = Inr start_iso \<and>
            isoNowUtc w (if useStored w stored then 1 else 2) = Inr end_iso \<and>
            newURL w ''/Customer/ByDateRange/'' (gocreateBaseUrl sec) = Some u \<and>
            filter is_GoCreatePost tr' =
              [GoCreatePost \<lparr> url = u, DateTime = start_iso, EndDateTime = end_iso,
                              UserName = gocreateUsername sec,
                              Password = gocreatePassword sec,
                              AuthenticationToken = gocreateAuthToken sec \<rparr>])"
proof -
  from guarded_pass_cases[OF assms(1)] consider
    (stop) "tr' = tr @ [StorageGet ranKey]" |
    (pass) tr1 where "tr1 = tr \<or> tr1 = tr @ [StorageGet ranKey]"
      "sync_pass w force sec cfg date lb tr1 = (tr', out)"
    by auto
  then show ?thesis
  proof cases
    case stop
    then show ?thesis using assms(2) by simp
  next
    case pass
    have "filter is_GoCreatePost tr1 = []" using pass(1) assms(2) by auto
    with sync_pass_fetches[OF pass(2)] show ?thesis by simp
  qed
qed

lemma runSync_fetches:
  "filter is_GoCreatePost (fst (runSync w force)) = [] \<or>
   (\<exists>stored start_iso end_iso req.
      storage_get w lastRunKey = Fulfilled stored \<and>
      (if useStored w stored then Inr (orEmpty (storedLastRun stored))
       else isoDaysAgoUtc w 1 (getEnvInt (env w) ''LOOKBACK_DAYS'' (Finite 1))) = Inr start_iso \<and>
      isoNowUtc w (if useStored w stored then 1 else 2) = Inr end_iso \<and>
      DateTime req = start_iso \<and> EndDateTime req = end_iso \<and>
      filter is_GoCreatePost (fst (runSync w force)) = [GoCreatePost req])"
proof -
  obtain tr out where r: "runSync w force = (tr, out)" by (metis prod.collapse)
  from runSync_cases[OF r] consider
    (reads) "list_all is_read tr" |
    (pass) sec cfg tr1 where "list_all is_read tr1"
      "guarded_pass w force sec cfg (today w)
         (getEnvInt (env w) ''LOOKBACK_DAYS'' (Finite 1)) tr1 = (tr, out)"
    by auto
  then show ?thesis
  proof cases
    case reads
    then show ?thesis using r by (simp add: reads_no_fetch)
  next
    case pass
    from guarded_pass_fetches[OF pass(2) reads_no_fetch[OF pass(1)]] r
    show ?thesis by (auto simp del: append.simps)
  qed
qed

subsection \<open>One record\<close>

lemma trim_empty_iff: "(trim s = []) = list_all isWhiteSpace s"
proof
  assume "trim s = []"
  then have a: "\<forall>ch\<in>set (dropWhile isWhiteSpace s). isWhiteSpace ch"
    by (simp add: trim_def dropWhile_eq_Nil_conv)
  have "dropWhile isWhiteSpace s = []"
  proof (cases "dropWhile isWhiteSpace s")
    case (Cons ch r)
    then have "\<not> isWhiteSpace ch" using hd_dropWhile[of isWhiteSpace s] by simp
    with a Cons show ?thesis by simp
  qed simp
  then show "list_all isWhiteSpace s" by (simp add: dropWhile_eq_Nil_conv list_all_iff)
next
  assume "list_all isWhiteSpace s"
  then have d: "dropWhile isWhiteSpace s = []"
    by (simp add: dropWhile_eq_Nil_conv list_all_iff)
  show "trim s = []" by (simp only: trim_def d dropWhile.simps rev.simps)
qed

lemma emailRaw_empty_iff: "(emailRaw c = []) = list_all isWhiteSpace (orEmpty (Email c))"
  by (simp add: emailRaw_def trim_empty_iff)

lemma iteration_no_email:
  "emailRaw c = [] \<Longrightarrow>
   iteration w cfg c tr k = (tr, Inr (k\<lparr>skippedNoEmail := skippedNoEmail k + 1\<rparr>))"
  by (simp add: iteration_def try_block_def)

lemma iteration_trace_found:
  assumes "emailRaw c \<noteq> []"
    and "snd (mondayFindItemByColumnValue w tr (mondayToken cfg) (boardId cfg) (colEmail cfg)
                (email c)) = Inr found"
  shows "\<exists>tail. fst (iteration w cfg c tr k) = tr @ find_call cfg c # upsert_calls cfg c found @ tail
           \<and> (tail = [] \<or> tail = [Sleep 120])"
  unfolding iteration_trace try_block_trace[OF assms(1)] assms(2)
  by (simp split: sum.split)

lemma upsert_calls_posts: "filter is_MondayPost (upsert_calls cfg c found) = upsert_calls cfg c found"
  by (simp add: upsert_calls_def create_call_def update_call_def split: option.split)


lemma iteration_trace_error:
  assumes "emailRaw c \<noteq> []"
    and "snd (mondayFindItemByColumnValue w tr (mondayToken cfg) (boardId cfg) (colEmail cfg)
                (email c)) = Inl e"
  shows "fst (iteration w cfg c tr k) = tr @ [find_call cfg c]"
  unfolding iteration_trace try_block_trace[OF assms(1)] assms(2) by simp

lemma upsert_calls_cases:
  "e \<in> set (upsert_calls cfg c found) \<Longrightarrow>
   e = create_call cfg c \<or> (\<exists>i. e = update_call cfg c i)"
  by (cases found) (auto simp add: upsert_calls_def split: if_splits)

lemma new_events_cases:
  assumes "emailRaw c \<noteq> []"
    and "e \<in> set (drop (length tr) (fst (iteration w cfg c tr k)))"
  shows "e = find_call cfg c \<or> e = create_call cfg c \<or> e = Sleep 120 \<or>
         (\<exists>i. e = update_call cfg c i)"
proof (cases "snd (mondayFindItemByColumnValue w tr (mondayToken cfg) (boardId cfg)
                (colEmail cfg) (email c))")
  case (Inl x)
  show ?thesis using assms(2) unfolding iteration_trace_error[OF assms(1) Inl] by simp
next
  case (Inr found)
  obtain tail where t: "fst (iteration w cfg c tr k)
      = tr @ find_call cfg c # upsert_calls cfg c found @ tail" "tail = [] \<or> tail = [Sleep 120]"
    using iteration_trace_found[OF assms(1) Inr] by blast
  from assms(2) have "e = find_call cfg c \<or> e \<in> set (upsert_calls cfg c found) \<or> e \<in> set tail"
    unfolding t(1) by auto
  then show ?thesis using t(2) upsert_calls_cases[of e cfg c found] by auto
qed

subsection \<open>The stored last run and the environment\<close>

lemma useStored_iff:
  "useStored w stored =
     (\<exists>a s. stored = Some a \<and> st_success a \<and> st_value a = Some s \<and> s \<noteq> [] \<and>
            dateParse w s \<noteq> None \<and> iso_prefix s)"
  by (auto simp add: useStored_def storedLastRun_def falsy_def isValidIsoDate_def orEmpty_def
           split: option.splits if_splits)

lemma useStored_value:
  "stored = Some a \<Longrightarrow> st_success a \<Longrightarrow> st_value a = Some s \<Longrightarrow>
   orEmpty (storedLastRun stored) = s"
  by (simp add: storedLastRun_def orEmpty_def)

lemma getEnvInt_cases:
  "getEnvInt e name fallback =
     (case e name of
        None \<Rightarrow> fallback
      | Some v \<Rightarrow>
          if v = [] then fallback
          else (case js_Number v of Finite d \<Rightarrow> Finite d | _ \<Rightarrow> fallback))"
  by (simp add: getEnvInt_def falsy_def orEmpty_def isFinite_def Let_def
           split: option.split number.split)

lemma getEnvBool_cases:
  "getEnvBool e name False =
     (case e name of
        None \<Rightarrow> False
      | Some v \<Rightarrow> v \<noteq> [] \<and> toLowerCase v \<in> set [''1'', ''true'', ''yes'', ''y'', ''on''])"
  by (simp add: getEnvBool_def falsy_def orEmpty_def split: option.split)

subsection \<open>The writes of a run\<close>

lemma runSync_writes:
  "(\<forall>r. snd (runSync w force) = Inr (Finished r) \<longrightarrow>
        filter is_StorageSet (fst (runSync w force)) =
          (if \<not> force \<and> \<not> getEnvBool (env w) ''DRY_RUN'' False \<and> errors (counts r) = []
           then [StorageSet ''sync:lastRunISO'' (finishedUtc r),
                 StorageSet ''sync:lastRunDateStockholm'' (stockholmDate r)]
           else [])) \<and>
   (snd (runSync w force) = Inr Skipped \<or> (\<exists>d. snd (runSync w force) = Inr (AlreadyRan d)) \<longrightarrow>
        filter is_StorageSet (fst (runSync w force)) = []) \<and>
   (\<forall>e. snd (runSync w force) = Inl e \<longrightarrow>
        filter is_StorageSet (fst (runSync w force)) = [] \<or>
        (\<not> force \<and> \<not> getEnvBool (env w) ''DRY_RUN'' False \<and>
         (\<exists>v. filter is_StorageSet (fst (runSync w force)) = [StorageSet ''sync:lastRunISO'' v] \<and>
              storage_set w ''sync:lastRunISO'' v = Rejected e)) \<or>
        (\<not> force \<and> \<not> getEnvBool (env w) ''DRY_RUN'' False \<and>
         (\<exists>v. filter is_StorageSet (fst (runSync w force)) =
                [StorageSet ''sync:lastRunISO'' v,
                 StorageSet ''sync:lastRunDateStockholm'' (today w)] \<and>
              storage_set w ''sync:lastRunISO'' v = Fulfilled () \<and>
              storage_set w ''sync:lastRunDateStockholm'' (today w) = Rejected e))) \<and>
   (force \<or> getEnvBool (env w) ''DRY_RUN'' False \<longrightarrow>
        filter is_StorageSet (fst (runSync w force)) = [])"
proof -
  obtain tr out where run: "runSync w force = (tr, out)" by (metis prod.collapse)
  have inr: "filter is_StorageSet tr =
               writes_of force (getEnvBool (env w) ''DRY_RUN'' False) (Inr o')"
    if "out = Inr o'" for o'
    using runSync_writes_Inr[of w force tr o'] run that by simp
  have inl: "filter is_StorageSet tr = [] \<or>
         (\<not> force \<and> \<not> getEnvBool (env w) ''DRY_RUN'' False \<and>
          rejected_writes w (today w) e (filter is_StorageSet tr))"
    if "out = Inl e" for e
    using runSync_writes_Inl[of w force tr e] run that by simp
  have 1: "\<forall>r. snd (runSync w force) = Inr (Finished r) \<longrightarrow>
        filter is_StorageSet (fst (runSync w force)) =
          (if \<not> force \<and> \<not> getEnvBool (env w) ''DRY_RUN'' False \<and> errors (counts r) = []
           then [StorageSet ''sync:lastRunISO'' (finishedUtc r),
                 StorageSet ''sync:lastRunDateStockholm'' (stockholmDate r)]
           else [])"
    using inr run by (simp add: writes_of_def)
  have 2: "snd (runSync w force) = Inr Skipped \<or> (\<exists>d. snd (runSync w force) = Inr (AlreadyRan d))
        \<longrightarrow> filter is_StorageSet (fst (runSync w force)) = []"
    using inr run by (auto simp add: writes_of_def)
  have 3: "\<forall>e. snd (runSync w force) = Inl e \<longrightarrow>
        filter is_StorageSet (fst (runSync w force)) = [] \<or>
        (\<not> force \<and> \<not> getEnvBool (env w) ''DRY_RUN'' False \<and>
         (\<exists>v. filter is_StorageSet (fst (runSync w force)) = [StorageSet ''sync:lastRunISO'' v] \<and>
              storage_set w ''sync:lastRunISO'' v = Rejected e)) \<or>
        (\<not> force \<and> \<not> getEnvBool (env w) ''DRY_RUN'' False \<and>
         (\<exists>v. filter is_StorageSet (fst (runSync w force)) =
                [StorageSet ''sync:lastRunISO'' v,
                 StorageSet ''sync:lastRunDateStockholm'' (today w)] \<and>
              storage_set w ''sync:lastRunISO'' v = Fulfilled () \<and>
              storage_set w ''sync:lastRunDateStockholm'' (today w) = Rejected e))"
    using inl run unfolding rejected_writes_def by fastforce
  have 4: "force \<or> getEnvBool (env w) ''DRY_RUN'' False \<longrightarrow>
        filter is_StorageSet (fst (runSync w force)) = []"
  proof (cases out)
    case (Inl e)
    from inl[OF this] run show ?thesis by auto
  next
    case (Inr o')
    from inr[OF this] run show ?thesis
      by (auto simp add: writes_of_def split: sync_output.splits)
  qed
  from 1 2 3 4 show ?thesis by (intro conjI)
qed

subsection \<open>The loop as a fold\<close>

lemma sync_loop_foldl:
  "sync_loop w cfg cs tr k =
     foldl (\<lambda>st c. case st of
                      (tr', Inl e) \<Rightarrow> (tr', Inl e)
                    | (tr', Inr k') \<Rightarrow> iteration w cfg c tr' k') (tr, Inr k) cs"
proof (induction cs arbitrary: tr k)
  case Nil
  show ?case by simp
next
  case (Cons c cs)
  have stuck: "foldl (\<lambda>st c. case st of
                      (tr', Inl e) \<Rightarrow> (tr', Inl e)
                    | (tr', Inr k') \<Rightarrow> iteration w cfg c tr' k') (t, Inl e) xs = (t, Inl e)"
    for t e xs
    by (induction xs) simp_all
  obtain t r where i: "iteration w cfg c tr k = (t, r)" by (metis prod.collapse)
  show ?case
  proof (cases r)
    case (Inl e)
    then show ?thesis using i stuck by simp
  next
    case (Inr k')
    then show ?thesis using i Cons.IH[of t k'] by simp
  qed
qed

lemma iteration_block:
  "\<exists>calls. list_all is_MondayPost calls \<and>
      fst (iteration w cfg c tr k) =
        tr @ (if emailRaw c = [] then []
              else find_call cfg c # calls @
                   (if \<exists>k'. snd (iteration w cfg c tr k) = Inr k' \<and> errors k' = errors k
                    then [Sleep 120] else []))"
proof (cases "emailRaw c = []")
  case True
  then show ?thesis by (simp add: iteration_no_email exI[where x = "[]"])
next
  case False
  let ?find = "mondayFindItemByColumnValue w tr (mondayToken cfg) (boardId cfg) (colEmail cfg)
                 (email c)"
  obtain r1 where f: "?find = (tr @ [find_call cfg c], r1)"
    using find_trace[of w tr cfg c] by (metis prod.collapse)
  show ?thesis
  proof (cases r1)
    case (Inl e)
    then show ?thesis using False f
      by (intro exI[where x = "[]"]) (simp add: iteration_def try_block_def)
  next
    case (Inr found)
    obtain r2 where u: "upsert w cfg c (tr @ [find_call cfg c]) k found
         = ((tr @ [find_call cfg c]) @ upsert_calls cfg c found, r2)"
      using upsert_trace[of w cfg c "tr @ [find_call cfg c]" k found] by (metis prod.collapse)
    have p: "list_all is_MondayPost (upsert_calls cfg c found)"
      by (simp add: upsert_calls_def create_call_def update_call_def split: option.split)
    show ?thesis
    proof (cases r2)
      case (Inl e)
      then show ?thesis using False f Inr u p
        by (intro exI[where x = "upsert_calls cfg c found"])
           (simp add: iteration_def try_block_def)
    next
      case r: (Inr k')
      have "errors k' = errors k" using u r
        by (auto simp add: upsert_def split: option.splits if_splits prod.splits sum.splits)
      then show ?thesis using False f Inr u p r
        by (intro exI[where x = "upsert_calls cfg c found"])
           (simp add: iteration_def try_block_def)
    qed
  qed
qed

subsection \<open>An error thrown by the loop\<close>

lemma sync_pass_rethrows:
  assumes "storage_get w lastRunKey = Fulfilled stored"
    and "(if useStored w stored then Inr (orEmpty (storedLastRun stored))
          else isoDaysAgoUtc w 1 lb) = Inr s"
    and "isoNowUtc w (if useStored w stored then 1 else 2) = Inr t"
    and "goCreateFetchCustomersByDateRange w (tr @ [StorageGet lastRunKey])
           \<lparr> baseUrl = gocreateBaseUrl sec, startISO = s, endISO = t,
             userName = gocreateUsername sec, password = gocreatePassword sec,
             authToken = gocreateAuthToken sec \<rparr> = (tr2, Inr customers)"
    and "sync_loop w cfg customers tr2 zero_counters = (tr3, Inl e)"
  shows "sync_pass w force sec cfg date lb tr = (tr3, Inl e)"
  using assms by (simp add: sync_pass_def Let_def)

lemma auth_error_run:
  "runSync (sample_world [ada, locked, old_one]) False =
     ([SecretsGet ''MONDAY_ACCESS_TOKEN'', SecretsGet ''GOCREATE_USERNAME'',
       SecretsGet ''GOCREATE_PASSWORD'', SecretsGet ''GOCREATE_AUTH_TOKEN'',
       SecretsGet ''GOCREATE_BASE_URL'',
       StorageGet ''sync:lastRunDateStockholm'', StorageGet ''sync:lastRunISO'',
       GoCreatePost
         \<lparr> url = ''http://api.gocreate.nu/Customer/ByDateRange/'',
           DateTime = ''2023-11-13T22:59:30.100Z'',
           EndDateTime = ''2023-11-14T22:59:30.200Z'', UserName = ''user'',
           Password = ''pw'', AuthenticationToken = ''auth'' \<rparr>,
       find_call sample_config ada, create_call sample_config ada, Sleep 120,
       find_call sample_config locked],
      Inl (JsError ''MondayAuthError'' ''monday auth failed HTTP 401: no''))"
  by code_simp

section \<open>The claims of the specification\<close>

text \<open>
  C1, as amended. For a customer whose trimmed email is not empty and whose search
  returned: when no item was found a new item is created in the configured board and
  group, unless \<open>DRY_RUN\<close> is set; when an item was found its columns are updated,
  unless \<open>UPDATE_EXISTING\<close> is off (the record is then counted as skippedExisting) or
  \<open>DRY_RUN\<close> is set. These are all the requests the record sends after its search.
\<close>

theorem upsert_by_email:
  assumes "emailRaw c \<noteq> []"
    and "snd (mondayFindItemByColumnValue w tr (mondayToken cfg) (boardId cfg) (colEmail cfg)
                (email c)) = Inr found"
  shows "filter is_MondayPost (drop (length tr + 1) (fst (iteration w cfg c tr k))) =
           (case found of
              None \<Rightarrow>
                if dryRun cfg then []
                else [MondayPost (mondayToken cfg) Q_create_item
                        [(''board_id'', VString (js_String (boardId cfg))),
                         (''group_id'', VString (groupId cfg)),
                         (''item_name'', VString (itemName c)),
                         (''column_values'', VJson (columnValues cfg c))]]
            | Some i \<Rightarrow>
                if updateExisting cfg \<and> \<not> dryRun cfg
                then [MondayPost (mondayToken cfg) Q_change_multiple_column_values
                        [(''board_id'', VString (js_String (boardId cfg))),
                         (''item_id'', VString (item_id i)),
                         (''column_values'', VJson (columnValues cfg c))]]
                else [])"
proof -
  obtain tail where t: "fst (iteration w cfg c tr k)
      = tr @ find_call cfg c # upsert_calls cfg c found @ tail" "tail = [] \<or> tail = [Sleep 120]"
    using iteration_trace_found[OF assms] by blast
  have "filter is_MondayPost tail = []" using t(2) by auto
  then have "filter is_MondayPost (drop (length tr + 1) (fst (iteration w cfg c tr k)))
               = upsert_calls cfg c found"
    using t(1) by (simp add: upsert_calls_posts)
  then show ?thesis
    by (simp add: upsert_calls_def create_call_def update_call_def split: option.split)
qed

text \<open>In the sample world the board holds \<open>old_one\<close>, and the item found is updated.\<close>

theorem upsert_by_email_witness:
  "emailRaw old_one \<noteq> [] \<and>
   snd (mondayFindItemByColumnValue (sample_world []) [] (mondayToken sample_config)
          (boardId sample_config) (colEmail sample_config) (email old_one))
     = Inr (Some \<lparr> item_id = ''77'', item_name = ''Old One'' \<rparr>) \<and>
   filter is_MondayPost
     (drop (length ([] :: event list) + 1)
        (fst (iteration (sample_world []) sample_config old_one [] zero_counters)))
     = [MondayPost ''tok'' Q_change_multiple_column_values
          [(''board_id'', VString ''123''), (''item_id'', VString ''77''),
           (''column_values'',
            VJson [(''phone'', ''0701''), (''email'', ''old@x.se''), (''company'', ''ACME'')])]]"
proof -
  have ne: "emailRaw old_one \<noteq> []"
    by code_simp
  have f: "snd (mondayFindItemByColumnValue (sample_world []) [] (mondayToken sample_config)
          (boardId sample_config) (colEmail sample_config) (email old_one))
     = Inr (Some \<lparr> item_id = ''77'', item_name = ''Old One'' \<rparr>)"
    by code_simp
  have v: "js_String (boardId sample_config) = ''123''"
    "columnValues sample_config old_one
       = [(''phone'', ''0701''), (''email'', ''old@x.se''), (''company'', ''ACME'')]"
    by code_simp+
  show ?thesis
    using ne f upsert_by_email[OF ne f, of zero_counters] v
    by (simp add: sample_config_def)
qed

text \<open>
  The sentence as the specification has it fails where \<open>UPDATE_EXISTING\<close> is off: the
  search finds the item, and the run sends no update; it counts the record as
  skippedExisting.
\<close>

theorem found_not_updated:
  "runSync no_update_world False =
     ([SecretsGet ''MONDAY_ACCESS_TOKEN'', SecretsGet ''GOCREATE_USERNAME'',
       SecretsGet ''GOCREATE_PASSWORD'', SecretsGet ''GOCREATE_AUTH_TOKEN'',
       SecretsGet ''GOCREATE_BASE_URL'',
       StorageGet ''sync:lastRunDateStockholm'', StorageGet ''sync:lastRunISO'',
       GoCreatePost
         \<lparr> url = ''http://api.gocreate.nu/Customer/ByDateRange/'', DateTime = ''2023-11-13T22:59:30.100Z'',
           EndDateTime = ''2023-11-14T22:59:30.200Z'', UserName = ''user'',
           Password = ''pw'', AuthenticationToken = ''auth'' \<rparr>,
       MondayPost ''tok'' (Q_items_page_by_column_values 1)
         [(''board_id'', VString ''123''), (''column_id'', VString ''email''),
          (''column_value'', VString ''old@x.se'')],
       Sleep 120, LogInfo ''sync finished'',
       StorageSet ''sync:lastRunISO'' ''2023-11-14T22:59:30.300Z'',
       StorageSet ''sync:lastRunDateStockholm'' ''2023-11-14''],
      Inr (Finished
        \<lparr> tz = ''Europe/Stockholm'', stockholmDate = ''2023-11-14'', forced = False,
          window = (''2023-11-13T22:59:30.100Z'', ''2023-11-14T22:59:30.200Z''),
          fetched = 1,
          counts = \<lparr> created = 0, updated = 0, skippedExisting = 1, skippedNoEmail = 0,
                     errors = [] \<rparr>,
          finishedUtc = ''2023-11-14T22:59:30.300Z'' \<rparr>))"
  by code_simp



text \<open>
  C3, as amended. A non-forced run for which the read of the key
  \<open>sync:lastRunDateStockholm\<close> is fulfilled, successfully, with today's Stockholm date
  neither fetches nor writes, and finishes no pass. So after a non-forced pass that was no
  dry run and recorded no error, a non-forced run on the same Stockholm date, on a storage
  that kept the writes, finishes no pass.
\<close>

theorem once_per_day_guard:
  "(storage_get w ''sync:lastRunDateStockholm'' = Fulfilled a \<and> alreadyRan a (today w)
      \<longrightarrow> no_pass (runSync w False)) \<and>
   (runSync w1 False = (tr, Inr (Finished r)) \<and> errors (counts r) = [] \<and>
    \<not> getEnvBool (env w1) ''DRY_RUN'' False \<and>
    storage_get w2 = storage_after tr (storage_get w1) \<and> today w2 = stockholmDate r
      \<longrightarrow> no_pass (runSync w2 False))"
  using guard_skips[of w a] rerun_skips[of w1 tr r w2] by (simp add: ranKey_def)

text \<open>The second run of the sample day returns \<open>alreadyRan\<close>.\<close>

theorem once_per_day_guard_witness:
  "runSync (sample_world [ada]) False
     = (fst (runSync (sample_world [ada]) False), Inr (Finished ada_result)) \<and>
   errors (counts ada_result) = [] \<and>
   getEnvBool (env (sample_world [ada])) ''DRY_RUN'' False = False \<and>
   today (rerun (sample_world [ada])) = stockholmDate ada_result \<and>
   storage_get (rerun (sample_world [ada])) ''sync:lastRunDateStockholm''
     = Fulfilled (Some \<lparr> st_success = True, st_value = Some ''2023-11-14'' \<rparr>) \<and>
   alreadyRan (Some \<lparr> st_success = True, st_value = Some ''2023-11-14'' \<rparr>)
     (today (rerun (sample_world [ada]))) \<and>
   no_pass (runSync (rerun (sample_world [ada])) False)"
proof -
  have r: "snd (runSync (sample_world [ada]) False) = Inr (Finished ada_result)"
    by code_simp
  then have run: "runSync (sample_world [ada]) False
     = (fst (runSync (sample_world [ada]) False), Inr (Finished ada_result))"
    by (simp add: prod_eq_iff)
  have e: "errors (counts ada_result) = []"
    by (simp add: ada_result_def)
  have d: "getEnvBool (env (sample_world [ada])) ''DRY_RUN'' False = False"
    by code_simp
  have t: "today (rerun (sample_world [ada])) = stockholmDate ada_result"
    by code_simp
  have g: "storage_get (rerun (sample_world [ada])) ''sync:lastRunDateStockholm''
     = Fulfilled (Some \<lparr> st_success = True, st_value = Some ''2023-11-14'' \<rparr>)"
    by code_simp
  have a: "alreadyRan (Some \<lparr> st_success = True, st_value = Some ''2023-11-14'' \<rparr>)
     (today (rerun (sample_world [ada])))"
    by code_simp
  have s: "storage_get (rerun (sample_world [ada]))
     = storage_after (fst (runSync (sample_world [ada]) False))
         (storage_get (sample_world [ada]))"
    by (simp add: rerun_def)
  have "no_pass (runSync (rerun (sample_world [ada])) False)"
    using once_per_day_guard[of "rerun (sample_world [ada])"
        "Some \<lparr> st_success = True, st_value = Some ''2023-11-14'' \<rparr>" "sample_world [ada]"
        "fst (runSync (sample_world [ada]) False)" ada_result "rerun (sample_world [ada])"]
      run e d t s
    by simp
  then show ?thesis using run e d t g a by simp
qed

text \<open>
  The sentence as the specification has it fails: when a record of the first pass ended in
  an error, the keys are not written, and a second non-forced run on the same Stockholm
  date fetches and finishes a pass again.
\<close>

theorem second_pass_same_day:
  "today (rerun (sample_world [bad])) = today (sample_world [bad]) \<and>
   length (filter is_GoCreatePost (fst (runSync (sample_world [bad]) False))) = 1 \<and>
   length (filter is_GoCreatePost (fst (runSync (rerun (sample_world [bad])) False))) = 1 \<and>
   \<not> no_pass (runSync (sample_world [bad]) False) \<and>
   \<not> no_pass (runSync (rerun (sample_world [bad])) False)"
  by code_simp

text \<open>
  C4, as amended. \<open>dry\<close> is what the run reads from \<open>DRY_RUN\<close>. A run that returns the
  result of a pass has set the two keys, first \<open>sync:lastRunISO\<close> and then
  \<open>sync:lastRunDateStockholm\<close>, exactly when it was not forced, \<open>dry\<close> is off and its
  list of errors is empty; else it has set nothing. A run that returns skipped has set
  nothing, and neither has any forced run or dry run. A run that throws has set nothing,
  unless what it throws is the rejection of one of the two sets by the storage: of the
  first, and then the second has not been asked for; or of the second, and then the first
  has been fulfilled, so that \<open>sync:lastRunISO\<close> is written and
  \<open>sync:lastRunDateStockholm\<close> is not.
\<close>

theorem guard_keys_written:
  "(let dry = (case env w ''DRY_RUN'' of
             None \<Rightarrow> False
           | Some v \<Rightarrow>
               v \<noteq> [] \<and> toLowerCase v \<in> set [''1'', ''true'', ''yes'', ''y'', ''on''])
    in
    (\<forall>r. snd (runSync w force) = Inr (Finished r) \<longrightarrow>
         filter is_StorageSet (fst (runSync w force)) =
           (if \<not> force \<and> \<not> dry \<and> errors (counts r) = []
            then [StorageSet ''sync:lastRunISO'' (finishedUtc r),
                  StorageSet ''sync:lastRunDateStockholm'' (stockholmDate r)]
            else [])) \<and>
    (snd (runSync w force) = Inr Skipped \<or> (\<exists>d. snd (runSync w force) = Inr (AlreadyRan d)) \<longrightarrow>
         filter is_StorageSet (fst (runSync w force)) = []) \<and>
    (\<forall>e. snd (runSync w force) = Inl e \<longrightarrow>
         filter is_StorageSet (fst (runSync w force)) = [] \<or>
         (\<not> force \<and> \<not> dry \<and>
          (\<exists>v. filter is_StorageSet (fst (runSync w force)) = [StorageSet ''sync:lastRunISO'' v] \<and>
               storage_set w ''sync:lastRunISO'' v = Rejected e)) \<or>
         (\<not> force \<and> \<not> dry \<and>
          (\<exists>v. filter is_StorageSet (fst (runSync w force)) =
                 [StorageSet ''sync:lastRunISO'' v,
                  StorageSet ''sync:lastRunDateStockholm'' (today w)] \<and>
               storage_set w ''sync:lastRunISO'' v = Fulfilled () \<and>
               storage_set w ''sync:lastRunDateStockholm'' (today w) = Rejected e))) \<and>
    (force \<or> dry \<longrightarrow>
         filter is_StorageSet (fst (runSync w force)) = []))"
  using runSync_writes[of w force] unfolding Let_def getEnvBool_cases .

text \<open>
  The sample run sets both keys; the run with a recorded error, the run that throws the
  authentication error and the forced run set nothing.
\<close>

theorem guard_keys_written_witness:
  "snd (runSync (sample_world [ada]) False) = Inr (Finished ada_result) \<and>
   filter is_StorageSet (fst (runSync (sample_world [ada]) False)) =
     [StorageSet ''sync:lastRunISO'' ''2023-11-14T22:59:30.300Z'',
      StorageSet ''sync:lastRunDateStockholm'' ''2023-11-14''] \<and>
   snd (runSync (sample_world [ada, old_one, no_mail, bad]) False)
     = Inr (Finished mixed_result) \<and>
   filter is_StorageSet (fst (runSync (sample_world [ada, old_one, no_mail, bad]) False)) = [] \<and>
   snd (runSync (sample_world [ada, locked, old_one]) False)
     = Inl (JsError ''MondayAuthError'' ''monday auth failed HTTP 401: no'') \<and>
   filter is_StorageSet (fst (runSync (sample_world [ada, locked, old_one]) False)) = [] \<and>
   filter is_StorageSet (fst (runSync (sample_world [ada]) True)) = []"
proof -
  have r: "snd (runSync (sample_world [ada]) False) = Inr (Finished ada_result)"
    "snd (runSync (sample_world [ada, old_one, no_mail, bad]) False)
       = Inr (Finished mixed_result)"
    "snd (runSync (sample_world [ada, locked, old_one]) False)
     = Inl (JsError ''MondayAuthError'' ''monday auth failed HTTP 401: no'')"
    by code_simp+
  have d: "env (sample_world cs) ''DRY_RUN'' = None" for cs
    by (simp add: sample_world_def sample_env_def)
  have s: "storage_set (sample_world cs) k v = Fulfilled ()" for cs k v
    by (simp add: sample_world_def)
  show ?thesis
    using guard_keys_written[of "sample_world [ada]" False]
      guard_keys_written[of "sample_world [ada, old_one, no_mail, bad]" False]
      guard_keys_written[of "sample_world [ada, locked, old_one]" False]
      guard_keys_written[of "sample_world [ada]" True]
    by (simp add: r d s ada_result_def mixed_result_def Let_def)
qed

text \<open>
  The sentence as the specification has it fails on a thrown error: when the storage
  rejects the set of \<open>sync:lastRunDateStockholm\<close> the run throws, after its set of
  \<open>sync:lastRunISO\<close> has been fulfilled.
\<close>

theorem second_set_rejected:
  "snd (runSync set_fails_world False) = Inl (JsError ''Error'' ''storage unavailable'') \<and>
   filter is_StorageSet (fst (runSync set_fails_world False)) =
     [StorageSet ''sync:lastRunISO'' ''2023-11-14T22:59:30.300Z'',
      StorageSet ''sync:lastRunDateStockholm'' ''2023-11-14''] \<and>
   storage_set set_fails_world ''sync:lastRunISO'' ''2023-11-14T22:59:30.300Z'' = Fulfilled () \<and>
   storage_set set_fails_world ''sync:lastRunDateStockholm'' ''2023-11-14''
     = Rejected (JsError ''Error'' ''storage unavailable'')"
  by code_simp

text \<open>
  C5. A run sends at most one request to the source system. Its start is the value stored
  under \<open>sync:lastRunISO\<close> when the storage answered successfully with a non-empty value
  that \<open>Date\<close> parses and that begins like an ISO date; else it is the clock minus
  \<open>days * 24 * 60 * 60 * 1000\<close> ms, in the arithmetic of doubles, where \<open>days\<close> is
  \<open>Number(LOOKBACK_DAYS)\<close> when \<open>LOOKBACK_DAYS\<close> is set, not empty and that number is
  finite, and 1 else. Its end is the clock read next.
\<close>

theorem fetch_window:
  assumes "GoCreatePost req \<in> set (fst (runSync w force))"
  shows "\<exists>stored.
           storage_get w ''sync:lastRunISO'' = Fulfilled stored \<and>
           filter is_GoCreatePost (fst (runSync w force)) = [GoCreatePost req] \<and>
           (\<forall>a s. stored = Some a \<and> st_success a \<and> st_value a = Some s \<and> s \<noteq> [] \<and>
                  dateParse w s \<noteq> None \<and> iso_prefix s \<longrightarrow>
              DateTime req = s \<and>
              Inr (EndDateTime req) = toISOString (newDate (Finite (of_int (clock w 1))))) \<and>
           (\<not> (\<exists>a s. stored = Some a \<and> st_success a \<and> st_value a = Some s \<and> s \<noteq> [] \<and>
                     dateParse w s \<noteq> None \<and> iso_prefix s) \<longrightarrow>
              Inr (DateTime req) =
                toISOString
                  (newDate
                     (sub (Finite (of_int (clock w 1)))
                        (mul (mul (mul (mul
                           (case env w ''LOOKBACK_DAYS'' of
                              None \<Rightarrow> Finite 1
                            | Some v \<Rightarrow>
                                if v = [] then Finite 1
                                else (case js_Number v of Finite d \<Rightarrow> Finite d | _ \<Rightarrow> Finite 1))
                           (Finite 24)) (Finite 60)) (Finite 60)) (Finite 1000)))) \<and>
              Inr (EndDateTime req) = toISOString (newDate (Finite (of_int (clock w 2)))))"
proof -
  have "is_GoCreatePost (GoCreatePost req)" by simp
  with assms have "filter is_GoCreatePost (fst (runSync w force)) \<noteq> []"
    unfolding filter_empty_conv by blast
  with runSync_fetches[of w force] obtain stored start_iso end_iso req' where
    s: "storage_get w lastRunKey = Fulfilled stored" and
    a: "(if useStored w stored then Inr (orEmpty (storedLastRun stored))
         else isoDaysAgoUtc w 1 (getEnvInt (env w) ''LOOKBACK_DAYS'' (Finite 1))) = Inr start_iso" and
    b: "isoNowUtc w (if useStored w stored then 1 else 2) = Inr end_iso" and
    r: "DateTime req' = start_iso" "EndDateTime req' = end_iso" and
    f: "filter is_GoCreatePost (fst (runSync w force)) = [GoCreatePost req']"
    by blast
  from assms have "GoCreatePost req \<in> set (filter is_GoCreatePost (fst (runSync w force)))"
    by simp
  with f have eq: "req' = req" by simp
  show ?thesis
  proof (intro exI[where x = stored] conjI allI impI)
    show "storage_get w ''sync:lastRunISO'' = Fulfilled stored"
      using s by (simp add: lastRunKey_def)
    show "filter is_GoCreatePost (fst (runSync w force)) = [GoCreatePost req]"
      using f eq by simp
  next
    fix a' s'
    assume h: "stored = Some a' \<and> st_success a' \<and> st_value a' = Some s' \<and> s' \<noteq> [] \<and>
               dateParse w s' \<noteq> None \<and> iso_prefix s'"
    then have u: "useStored w stored" unfolding useStored_iff by blast
    from h have v: "orEmpty (storedLastRun stored) = s'" by (simp add: useStored_value)
    show "DateTime req = s'" using a u v r eq by simp
    show "Inr (EndDateTime req) = toISOString (newDate (Finite (of_int (clock w 1))))"
      using b u r eq by (simp add: isoNowUtc_def)
  next
    assume "\<not> (\<exists>a s. stored = Some a \<and> st_success a \<and> st_value a = Some s \<and> s \<noteq> [] \<and>
                     dateParse w s \<noteq> None \<and> iso_prefix s)"
    then have u: "\<not> useStored w stored" unfolding useStored_iff .
    show "Inr (DateTime req) =
                toISOString
                  (newDate
                     (sub (Finite (of_int (clock w 1)))
                        (mul (mul (mul (mul
                           (case env w ''LOOKBACK_DAYS'' of
                              None \<Rightarrow> Finite 1
                            | Some v \<Rightarrow>
                                if v = [] then Finite 1
                                else (case js_Number v of Finite d \<Rightarrow> Finite d | _ \<Rightarrow> Finite 1))
                           (Finite 24)) (Finite 60)) (Finite 60)) (Finite 1000))))"
      using a u r eq by (simp add: isoDaysAgoUtc_def getEnvInt_cases)
    show "Inr (EndDateTime req) = toISOString (newDate (Finite (of_int (clock w 2))))"
      using b u r eq by (simp add: isoNowUtc_def)
  qed
qed

text \<open>
  With a last run stored the window starts there; with none, twelve hours back for
  \<open>LOOKBACK_DAYS=0.5\<close>, ten days back for \<open>LOOKBACK_DAYS=1e1\<close>, and one day back
  when \<open>LOOKBACK_DAYS\<close> is not set.
\<close>

theorem fetch_window_witness:
  "GoCreatePost \<lparr> url = ''http://api.gocreate.nu/Customer/ByDateRange/'',
                  DateTime = ''2023-11-13T22:59:31.000Z'',
                  EndDateTime = ''2023-11-14T22:59:30.100Z'', UserName = ''user'',
                  Password = ''pw'', AuthenticationToken = ''auth'' \<rparr>
     \<in> set (fst (runSync stored_world True)) \<and>
   storage_get stored_world ''sync:lastRunISO''
     = Fulfilled (Some \<lparr> st_success = True, st_value = Some ''2023-11-13T22:59:31.000Z'' \<rparr>) \<and>
   dateParse stored_world ''2023-11-13T22:59:31.000Z'' = Some 0 \<and>
   iso_prefix ''2023-11-13T22:59:31.000Z'' \<and>
   toISOString (newDate (Finite (of_int (clock stored_world 1))))
     = Inr ''2023-11-14T22:59:30.100Z'' \<and>
   GoCreatePost \<lparr> url = ''http://api.gocreate.nu/Customer/ByDateRange/'',
                  DateTime = ''2023-11-14T10:59:30.100Z'',
                  EndDateTime = ''2023-11-14T22:59:30.200Z'', UserName = ''user'',
                  Password = ''pw'', AuthenticationToken = ''auth'' \<rparr>
     \<in> set (fst (runSync (lookback_world ''0.5'') False)) \<and>
   storage_get (lookback_world ''0.5'') ''sync:lastRunISO'' = Fulfilled None \<and>
   env (lookback_world ''0.5'') ''LOOKBACK_DAYS'' = Some ''0.5'' \<and>
   js_Number ''0.5'' = Finite (1 / 2) \<and>
   toISOString
     (newDate (sub (Finite (of_int (clock (lookback_world ''0.5'') 1)))
                   (mul (mul (mul (mul (Finite (1 / 2)) (Finite 24)) (Finite 60)) (Finite 60))
                        (Finite 1000))))
     = Inr ''2023-11-14T10:59:30.100Z'' \<and>
   toISOString (newDate (Finite (of_int (clock (lookback_world ''0.5'') 2))))
     = Inr ''2023-11-14T22:59:30.200Z'' \<and>
   GoCreatePost \<lparr> url = ''http://api.gocreate.nu/Customer/ByDateRange/'',
                  DateTime = ''2023-11-04T22:59:30.100Z'',
                  EndDateTime = ''2023-11-14T22:59:30.200Z'', UserName = ''user'',
                  Password = ''pw'', AuthenticationToken = ''auth'' \<rparr>
     \<in> set (fst (runSync (lookback_world ''1e1'') False)) \<and>
   storage_get (lookback_world ''1e1'') ''sync:lastRunISO'' = Fulfilled None \<and>
   env (lookback_world ''1e1'') ''LOOKBACK_DAYS'' = Some ''1e1'' \<and>
   js_Number ''1e1'' = Finite 10 \<and>
   toISOString
     (newDate (sub (Finite (of_int (clock (lookback_world ''1e1'') 1)))
                   (mul (mul (mul (mul (Finite 10) (Finite 24)) (Finite 60)) (Finite 60))
                        (Finite 1000))))
     = Inr ''2023-11-04T22:59:30.100Z'' \<and>
   GoCreatePost \<lparr> url = ''http://api.gocreate.nu/Customer/ByDateRange/'',
                  DateTime = ''2023-11-13T22:59:30.100Z'',
                  EndDateTime = ''2023-11-14T22:59:30.200Z'', UserName = ''user'',
                  Password = ''pw'', AuthenticationToken = ''auth'' \<rparr>
     \<in> set (fst (runSync (sample_world [ada]) False)) \<and>
   storage_get (sample_world [ada]) ''sync:lastRunISO'' = Fulfilled None \<and>
   env (sample_world [ada]) ''LOOKBACK_DAYS'' = None \<and>
   toISOString
     (newDate (sub (Finite (of_int (clock (sample_world [ada]) 1)))
                   (mul (mul (mul (mul (Finite 1) (Finite 24)) (Finite 60)) (Finite 60))
                        (Finite 1000))))
     = Inr ''2023-11-13T22:59:30.100Z''"
proof -
  let ?r1 = "\<lparr> url = ''http://api.gocreate.nu/Customer/ByDateRange/'',
                 DateTime = ''2023-11-13T22:59:31.000Z'',
                 EndDateTime = ''2023-11-14T22:59:30.100Z'', UserName = ''user'',
                 Password = ''pw'', AuthenticationToken = ''auth'' \<rparr>"
  let ?r2 = "\<lparr> url = ''http://api.gocreate.nu/Customer/ByDateRange/'',
                 DateTime = ''2023-11-14T10:59:30.100Z'',
                 EndDateTime = ''2023-11-14T22:59:30.200Z'', UserName = ''user'',
                 Password = ''pw'', AuthenticationToken = ''auth'' \<rparr>"
  have m1: "GoCreatePost ?r1 \<in> set (fst (runSync stored_world True))"
    by code_simp
  have m2: "GoCreatePost ?r2 \<in> set (fst (runSync (lookback_world ''0.5'') False))"
    by code_simp
  have s1: "storage_get stored_world ''sync:lastRunISO''
     = Fulfilled (Some \<lparr> st_success = True, st_value = Some ''2023-11-13T22:59:31.000Z'' \<rparr>)"
    by code_simp
  have p1: "dateParse stored_world ''2023-11-13T22:59:31.000Z'' = Some 0"
    "iso_prefix ''2023-11-13T22:59:31.000Z''"
    by code_simp+
  have s2: "storage_get (lookback_world ''0.5'') ''sync:lastRunISO'' = Fulfilled None"
    by code_simp
  have e2: "env (lookback_world ''0.5'') ''LOOKBACK_DAYS'' = Some ''0.5''"
    by code_simp
  have n2: "js_Number ''0.5'' = Finite (1 / 2)"
    by code_simp
  from fetch_window[OF m1] s1 p1
  have a: "toISOString (newDate (Finite (of_int (clock stored_world 1))))
     = Inr ''2023-11-14T22:59:30.100Z''"
    by simp
  from fetch_window[OF m2] s2 e2 n2
  have b: "toISOString
     (newDate (sub (Finite (of_int (clock (lookback_world ''0.5'') 1)))
                   (mul (mul (mul (mul (Finite (1 / 2)) (Finite 24)) (Finite 60)) (Finite 60))
                        (Finite 1000))))
     = Inr ''2023-11-14T10:59:30.100Z''"
   "toISOString (newDate (Finite (of_int (clock (lookback_world ''0.5'') 2))))
     = Inr ''2023-11-14T22:59:30.200Z''"
    by simp_all
  let ?r3 = "\<lparr> url = ''http://api.gocreate.nu/Customer/ByDateRange/'',
                 DateTime = ''2023-11-04T22:59:30.100Z'',
                 EndDateTime = ''2023-11-14T22:59:30.200Z'', UserName = ''user'',
                 Password = ''pw'', AuthenticationToken = ''auth'' \<rparr>"
  let ?r4 = "\<lparr> url = ''http://api.gocreate.nu/Customer/ByDateRange/'',
                 DateTime = ''2023-11-13T22:59:30.100Z'',
                 EndDateTime = ''2023-11-14T22:59:30.200Z'', UserName = ''user'',
                 Password = ''pw'', AuthenticationToken = ''auth'' \<rparr>"
  have m3: "GoCreatePost ?r3 \<in> set (fst (runSync (lookback_world ''1e1'') False))"
    by code_simp
  have m4: "GoCreatePost ?r4 \<in> set (fst (runSync (sample_world [ada]) False))"
    by code_simp
  have s3: "storage_get (lookback_world ''1e1'') ''sync:lastRunISO'' = Fulfilled None"
    by code_simp
  have e3: "env (lookback_world ''1e1'') ''LOOKBACK_DAYS'' = Some ''1e1''"
    by code_simp
  have n3: "js_Number ''1e1'' = Finite 10"
    by code_simp
  have s4: "storage_get (sample_world [ada]) ''sync:lastRunISO'' = Fulfilled None"
    by code_simp
  have e4: "env (sample_world [ada]) ''LOOKBACK_DAYS'' = None"
    by code_simp
  from fetch_window[OF m3] s3 e3 n3
  have c: "toISOString
     (newDate (sub (Finite (of_int (clock (lookback_world ''1e1'') 1)))
                   (mul (mul (mul (mul (Finite 10) (Finite 24)) (Finite 60)) (Finite 60))
                        (Finite 1000))))
     = Inr ''2023-11-04T22:59:30.100Z''"
    by simp
  from fetch_window[OF m4] s4 e4
  have d: "toISOString
     (newDate (sub (Finite (of_int (clock (sample_world [ada]) 1)))
                   (mul (mul (mul (mul (Finite 1) (Finite 24)) (Finite 60)) (Finite 60))
                        (Finite 1000))))
     = Inr ''2023-11-13T22:59:30.100Z''"
    by simp
  show ?thesis
    using m1 m2 s1 p1 s2 e2 n2 a b m3 s3 e3 n3 c m4 s4 e4 d by (intro conjI)
qed



text \<open>
  C7, as amended. The loop is the fold of the iteration over the list, in its order: a
  record starts from the calls and the counters the record before it has left, and no
  record follows one that throws. A record with an email sends its search, then the calls
  of its write, and then sleeps 120 ms once, when neither threw; a record skipped for its
  missing email sends nothing and does not sleep, and neither does a record that ended in
  an error.
\<close>

theorem sequential_records:
  "sync_loop w cfg cs tr k =
     foldl (\<lambda>st c. case st of
                      (tr', Inl e) \<Rightarrow> (tr', Inl e)
                    | (tr', Inr k') \<Rightarrow> iteration w cfg c tr' k') (tr, Inr k) cs \<and>
   (\<exists>calls. list_all is_MondayPost calls \<and>
      fst (iteration w cfg c tr k) =
        tr @ (if emailRaw c = [] then []
              else MondayPost (mondayToken cfg) (Q_items_page_by_column_values 1)
                     [(''board_id'', VString (js_String (boardId cfg))),
                      (''column_id'', VString (colEmail cfg)),
                      (''column_value'', VString (email c))]
                   # calls @
                   (if \<exists>k'. snd (iteration w cfg c tr k) = Inr k' \<and> errors k' = errors k
                    then [Sleep 120] else [])))"
  using sync_loop_foldl[of w cfg cs tr k] iteration_block[of w cfg c tr k]
  unfolding find_call_def by (intro conjI)

text \<open>
  Four records of the sample: no delay after \<open>bad\<close>, whose search fails, and none for
  \<open>no_mail\<close>.
\<close>

theorem sequential_records_witness:
  "sync_loop (sample_world []) sample_config [bad, ada, no_mail, old_one] [] zero_counters =
     ([find_call sample_config bad,
       find_call sample_config ada, create_call sample_config ada, Sleep 120,
       find_call sample_config old_one,
       update_call sample_config old_one \<lparr> item_id = ''77'', item_name = ''Old One'' \<rparr>,
       Sleep 120],
      Inr \<lparr> created = 1, updated = 1, skippedExisting = 0, skippedNoEmail = 1,
            errors = [(Some ''bad@x.se'', ''monday HTTP 500: down'')] \<rparr>) \<and>
   emailRaw ada \<noteq> [] \<and>
   snd (iteration (sample_world []) sample_config ada [] zero_counters)
     = Inr (zero_counters\<lparr>created := 1\<rparr>) \<and>
   (\<exists>calls. list_all is_MondayPost calls \<and>
      fst (iteration (sample_world []) sample_config ada [] zero_counters)
        = find_call sample_config ada # calls @ [Sleep 120])"
proof -
  have f: "foldl (\<lambda>st c. case st of
                      (tr', Inl e) \<Rightarrow> (tr', Inl e)
                    | (tr', Inr k') \<Rightarrow> iteration (sample_world []) sample_config c tr' k')
             ([], Inr zero_counters) [bad, ada, no_mail, old_one] =
     ([find_call sample_config bad,
       find_call sample_config ada, create_call sample_config ada, Sleep 120,
       find_call sample_config old_one,
       update_call sample_config old_one \<lparr> item_id = ''77'', item_name = ''Old One'' \<rparr>,
       Sleep 120],
      Inr \<lparr> created = 1, updated = 1, skippedExisting = 0, skippedNoEmail = 1,
            errors = [(Some ''bad@x.se'', ''monday HTTP 500: down'')] \<rparr>)"
    by code_simp
  have a: "emailRaw ada \<noteq> []"
    "snd (iteration (sample_world []) sample_config ada [] zero_counters)
       = Inr (zero_counters\<lparr>created := 1\<rparr>)"
    by code_simp+
  have e: "errors (zero_counters\<lparr>created := 1\<rparr>) = errors zero_counters"
    by simp
  show ?thesis
    using f a e
      sequential_records[of "sample_world []" sample_config "[bad, ada, no_mail, old_one]" "[]"
        zero_counters ada]
    by (simp add: find_call_def)
qed

text \<open>
  The sentence as the specification has it fails: after the record \<open>bad\<close>, whose search
  is answered with HTTP 500, the search of the next record follows with no delay between.
\<close>

theorem no_delay_after_error:
  "fst (sync_loop (sample_world []) sample_config [bad, ada] [] zero_counters) =
     [MondayPost ''tok'' (Q_items_page_by_column_values 1)
        [(''board_id'', VString ''123''), (''column_id'', VString ''email''),
         (''column_value'', VString ''bad@x.se'')],
      MondayPost ''tok'' (Q_items_page_by_column_values 1)
        [(''board_id'', VString ''123''), (''column_id'', VString ''email''),
         (''column_value'', VString ''new@x.se'')],
      MondayPost ''tok'' Q_create_item
        [(''board_id'', VString ''123''), (''group_id'', VString ''topics''),
         (''item_name'', VString ''Ada Berg''),
         (''column_values'',
          VJson [(''phone'', ''0701''), (''email'', ''new@x.se''), (''company'', ''ACME'')])],
      Sleep 120]"
  by code_simp

text \<open>
  C8. A customer whose \<open>Email\<close> is missing, empty or white space only is counted in
  skippedNoEmail and sends nothing. Any other customer searches for the trimmed,
  lower-cased email, and writes the column values in which that email stands under the
  email column.
\<close>

theorem email_normalised:
  "(list_all isWhiteSpace (orEmpty (Email c)) \<longrightarrow>
      iteration w cfg c tr k = (tr, Inr (k\<lparr>skippedNoEmail := skippedNoEmail k + 1\<rparr>))) \<and>
   (\<not> list_all isWhiteSpace (orEmpty (Email c)) \<longrightarrow>
      (\<forall>t q vs. MondayPost t q vs \<in> set (drop (length tr) (fst (iteration w cfg c tr k))) \<longrightarrow>
         (q = Q_items_page_by_column_values 1 \<and>
          map_of vs ''column_value'' = Some (VString (toLowerCase (trim (orEmpty (Email c))))))
         \<or>
         (q \<noteq> Q_items_page_by_column_values 1 \<and>
          map_of vs ''column_values'' =
            Some (VJson (AList.update (colForetag cfg) (trim (orEmpty (CompanyName c)))
                          (AList.update (colEmail cfg) (toLowerCase (trim (orEmpty (Email c))))
                            (AList.update (colTelefon cfg) (trim (orEmpty (MobileNumber c)))
                              []))))))) \<and>
   (colEmail cfg \<noteq> colForetag cfg \<longrightarrow>
      map_of (columnValues cfg c) (colEmail cfg) = Some (toLowerCase (trim (orEmpty (Email c)))))"
proof (intro conjI impI allI)
  assume "list_all isWhiteSpace (orEmpty (Email c))"
  then show "iteration w cfg c tr k = (tr, Inr (k\<lparr>skippedNoEmail := skippedNoEmail k + 1\<rparr>))"
    by (simp add: iteration_no_email emailRaw_empty_iff)
next
  fix t q vs
  assume ne: "\<not> list_all isWhiteSpace (orEmpty (Email c))"
    and m: "MondayPost t q vs \<in> set (drop (length tr) (fst (iteration w cfg c tr k)))"
  from ne have ne': "emailRaw c \<noteq> []" by (simp add: emailRaw_empty_iff)
  from new_events_cases[OF ne' m]
  have "MondayPost t q vs = find_call cfg c \<or> MondayPost t q vs = create_call cfg c
                 \<or> (\<exists>i. MondayPost t q vs = update_call cfg c i)"
    by auto
  then show "(q = Q_items_page_by_column_values 1 \<and>
          map_of vs ''column_value'' = Some (VString (toLowerCase (trim (orEmpty (Email c))))))
         \<or>
         (q \<noteq> Q_items_page_by_column_values 1 \<and>
          map_of vs ''column_values'' =
            Some (VJson (AList.update (colForetag cfg) (trim (orEmpty (CompanyName c)))
                          (AList.update (colEmail cfg) (toLowerCase (trim (orEmpty (Email c))))
                            (AList.update (colTelefon cfg) (trim (orEmpty (MobileNumber c)))
                              [])))))"
    by (auto simp add: find_call_def create_call_def update_call_def columnValues_def
                       email_def emailRaw_def)
next
  assume "colEmail cfg \<noteq> colForetag cfg"
  then show "map_of (columnValues cfg c) (colEmail cfg)
               = Some (toLowerCase (trim (orEmpty (Email c))))"
    by (simp add: columnValues_def update_conv' email_def emailRaw_def)
qed

text \<open>The record \<open>no_mail\<close> is skipped; \<open>ada\<close> is written as \<open>new@x.se\<close>.\<close>

theorem email_normalised_witness:
  "list_all isWhiteSpace (orEmpty (Email no_mail)) \<and>
   iteration (sample_world []) sample_config no_mail [] zero_counters
     = ([], Inr (zero_counters\<lparr>skippedNoEmail := 1\<rparr>)) \<and>
   \<not> list_all isWhiteSpace (orEmpty (Email ada)) \<and>
   create_call sample_config ada
     \<in> set (drop (length ([] :: event list))
              (fst (iteration (sample_world []) sample_config ada [] zero_counters))) \<and>
   colEmail sample_config \<noteq> colForetag sample_config \<and>
   toLowerCase (trim (orEmpty (Email ada))) = ''new@x.se'' \<and>
   map_of (columnValues sample_config ada) (colEmail sample_config) = Some ''new@x.se''"
proof -
  have a: "list_all isWhiteSpace (orEmpty (Email no_mail))"
    "\<not> list_all isWhiteSpace (orEmpty (Email ada))"
    "colEmail sample_config \<noteq> colForetag sample_config"
    "toLowerCase (trim (orEmpty (Email ada))) = ''new@x.se''"
    by code_simp+
  have m: "create_call sample_config ada
     \<in> set (drop (length ([] :: event list))
              (fst (iteration (sample_world []) sample_config ada [] zero_counters)))"
    by code_simp
  have z: "skippedNoEmail zero_counters = 0"
    by (simp add: zero_counters_def)
  show ?thesis
    using a m z
      email_normalised[of no_mail "sample_world []" sample_config "[]" zero_counters]
      email_normalised[of ada "sample_world []" sample_config "[]" zero_counters]
    by simp
qed

text \<open>
  C9. When the \<open>try\<close> block of a record throws, after the records before it went through:
  an error named \<open>MondayAuthError\<close> ends the loop at once with that error, and the
  records after it are not processed; any other error is appended to the list of errors
  with the record's \<open>Email\<close> and its message, and the loop goes on with the next record.
\<close>

theorem auth_error_aborts:
  assumes "sync_loop w cfg cs1 tr k = (tr1, Inr k1)"
    and "try_block w cfg c tr1 k1 = (tr', Inl e)"
  shows "sync_loop w cfg (cs1 @ c # cs2) tr k =
           (if err_name e = ''MondayAuthError'' then (tr', Inl e)
            else sync_loop w cfg cs2 tr'
                   (k1\<lparr>errors := errors k1 @ [(Email c, err_message e)]\<rparr>))"
  using assms by (simp add: sync_loop_append iteration_def)

text \<open>
  After \<open>ada\<close>, the search for \<open>locked\<close> is answered with HTTP 401: the loop throws, and
  \<open>old_one\<close> is not looked up.
\<close>

theorem auth_error_aborts_witness:
  "sync_loop (sample_world []) sample_config [ada] [] zero_counters
     = ([find_call sample_config ada, create_call sample_config ada, Sleep 120],
        Inr (zero_counters\<lparr>created := 1\<rparr>)) \<and>
   sync_loop (sample_world []) sample_config ([ada] @ locked # [old_one]) [] zero_counters
     = ([find_call sample_config ada, create_call sample_config ada, Sleep 120,
         find_call sample_config locked],
        Inl (JsError ''MondayAuthError'' ''monday auth failed HTTP 401: no''))"
proof -
  have l: "sync_loop (sample_world []) sample_config [ada] [] zero_counters
     = ([find_call sample_config ada, create_call sample_config ada, Sleep 120],
        Inr (zero_counters\<lparr>created := 1\<rparr>))"
    by code_simp
  have t: "try_block (sample_world []) sample_config locked
             [find_call sample_config ada, create_call sample_config ada, Sleep 120]
             (zero_counters\<lparr>created := 1\<rparr>)
     = ([find_call sample_config ada, create_call sample_config ada, Sleep 120,
         find_call sample_config locked],
        Inl (JsError ''MondayAuthError'' ''monday auth failed HTTP 401: no''))"
    by code_simp
  show ?thesis
    using l auth_error_aborts[OF l t, of "[old_one]"] by simp
qed

text \<open>
  C10. When the run returns the result of a pass, its counters add up to the number of
  customers fetched: created + updated + skippedExisting + skippedNoEmail + the number of
  errors = fetched.
\<close>

theorem counters_partition:
  assumes "snd (runSync w force) = Inr (Finished r)"
  shows "created (counts r) + updated (counts r) + skippedExisting (counts r)
           + skippedNoEmail (counts r) + length (errors (counts r)) = fetched r"
  using runSync_Finished[OF assms] by (simp add: total_def)

text \<open>The four customers of the sample: one created, one updated, one skipped, one error.\<close>

theorem counters_partition_witness:
  "snd (runSync (sample_world [ada, old_one, no_mail, bad]) False)
     = Inr (Finished mixed_result) \<and>
   created (counts mixed_result) + updated (counts mixed_result)
     + skippedExisting (counts mixed_result) + skippedNoEmail (counts mixed_result)
     + length (errors (counts mixed_result)) = fetched mixed_result \<and>
   fetched mixed_result = 4"
proof -
  have r: "snd (runSync (sample_world [ada, old_one, no_mail, bad]) False)
     = Inr (Finished mixed_result)"
    by code_simp
  show ?thesis
    using r counters_partition[OF r] by (simp add: mixed_result_def)
qed

end
